theory Spec2Isabelle
  imports Main "HOL-Library.Multiset"
begin

section \<open>Data model (types.ts, rooms.js, gameState.js)\<close>

text \<open>
  The game server keeps two in-memory maps keyed by room code: \<open>rooms\<close> (rooms.js) and
  \<open>gameStates\<close> (gameState.js; called \<open>games\<close> where it is an argument). JavaScript
  mutates the objects in place; the model passes the maps and the player list explicitly
  and returns the updated values.

  JavaScript numbers that only ever hold integers (scores, seconds, points) are \<open>int\<close>;
  counters that start at 0 or 1 and are only incremented (round, drawer index) are \<open>nat\<close>.
  A \<open>char\<close> stands for the UTF-16 code unit of the same number, so a \<open>string\<close> is a
  JavaScript string whose code units are all below 256. The cosmetic player fields \<open>type\<close> and \<open>avatar\<close>, the
  random message \<open>id\<close> and the clock values \<open>timestamp\<close> and \<open>createdAt\<close> are never read
  by the code modelled here and are left out of the records.
\<close>

datatype GamePhase =
  MENU | HOST_SETUP | LOBBY_BROWSER | LOBBY_WAITING | ROOM_LOBBY | ROUND_START
  | TURN_START | WORD_SELECTION | DRAWING | TURN_END | ROUND_END | GAME_OVER

datatype Category = ACTION | THING | PLACE

record WordOption =
  word :: string
  category :: Category

record Player =
  id_p :: string
  name_p :: string
  score :: int
  hasGuessedCorrectly :: bool

record ChatMessage =
  playerId :: string
  playerName :: string
  text_m :: string
  isSystem :: bool
  isCorrectGuess :: "bool option"

record GameState =
  phase :: GamePhase
  currentRound :: nat
  totalRounds :: nat
  currentPlayerIndex :: nat
  currentWord :: "WordOption option"
  wordOptions :: "WordOption list"
  timeLeft :: int
  messages :: "ChatMessage list"
  canvasData :: "string option"
  usedWords :: "string list"
  timerInterval :: "nat option"

datatype RoomStatus = WAITING | PLAYING

record Room =
  id_r :: string
  name_r :: string
  isPrivate :: bool
  password :: "string option"
  hostId :: "string option"
  players :: "Player list"
  maxPlayers :: nat
  status :: RoomStatus

subsection \<open>Game constants\<close>

definition TOTAL_ROUNDS :: nat where
  "TOTAL_ROUNDS = 3"

definition TURN_DURATION_SECONDS :: int where
  "TURN_DURATION_SECONDS = 80"

definition POINTS_DRAWER_ALL_GUESSED :: int where
  "POINTS_DRAWER_ALL_GUESSED = 300"

definition POINTS_GUESS_BASE :: int where
  "POINTS_GUESS_BASE = 500"

definition POINTS_GUESS_DECAY :: int where
  "POINTS_GUESS_DECAY = 100"

section \<open>Array helpers\<close>

text \<open>
  \<open>Array.prototype.find\<close> returns the first element satisfying the predicate. Because the
  source then mutates the object found, the model works with its index.
\<close>

fun findIndex :: "('a \<Rightarrow> bool) \<Rightarrow> 'a list \<Rightarrow> nat option" where
  "findIndex P [] = None"
| "findIndex P (x # xs) = (if P x then Some 0 else map_option Suc (findIndex P xs))"

section \<open>Scoring a correct guess (gameState.js, handleCorrectGuess)\<close>

text \<open>
  The source returns \<open>null\<close>, or an object \<open>{points, allGuessed, player}\<close>, or it throws a
  TypeError when it reads \<open>players[state.currentPlayerIndex].id\<close> with the index out of
  range. The first such read sits behind \<open>p.hasGuessedCorrectly &&\<close> and is only reached
  when some player already has the flag; the second one comes after the guesser has been
  credited, so the mutation is kept when it throws.
\<close>

datatype GuessOutcome =
  Null
  | TypeError
  | Result (points: int) (allGuessed: bool) (player: Player)

definition guessRank :: "GameState \<Rightarrow> Player list \<Rightarrow> nat" where
  "guessRank state ps =
     length (filter (\<lambda>p. hasGuessedCorrectly p \<and>
                         id_p p \<noteq> id_p (ps ! currentPlayerIndex state)) ps)"

definition guessPoints :: "nat \<Rightarrow> int" where
  "guessPoints rank = max (POINTS_GUESS_BASE - int rank * POINTS_GUESS_DECAY) 200"

definition credit :: "int \<Rightarrow> Player \<Rightarrow> Player" where
  "credit pts p = p\<lparr>score := score p + pts\<rparr>"

text \<open>\<open>player.score += points; player.hasGuessedCorrectly = true\<close> on the object found.\<close>

definition markGuessed :: "int \<Rightarrow> nat \<Rightarrow> Player list \<Rightarrow> Player list" where
  "markGuessed pts i ps = ps[i := (credit pts (ps ! i))\<lparr>hasGuessedCorrectly := True\<rparr>]"

text \<open>\<open>players.filter(p => p.id !== players[idx].id).every(p => p.hasGuessedCorrectly)\<close>\<close>

definition allGuessersDone :: "nat \<Rightarrow> Player list \<Rightarrow> bool" where
  "allGuessersDone d ps =
     list_all hasGuessedCorrectly (filter (\<lambda>p. id_p p \<noteq> id_p (ps ! d)) ps)"

text \<open>\<open>drawer.score += POINTS_DRAWER_ALL_GUESSED\<close>\<close>

definition awardDrawer :: "nat \<Rightarrow> Player list \<Rightarrow> Player list" where
  "awardDrawer d ps = ps[d := credit POINTS_DRAWER_ALL_GUESSED (ps ! d)]"

definition handleCorrectGuess ::
  "(string \<rightharpoonup> GameState) \<Rightarrow> string \<Rightarrow> string \<Rightarrow> Player list
     \<Rightarrow> Player list \<times> GuessOutcome" where
  "handleCorrectGuess games roomCode pid ps =
     (case games roomCode of
        None \<Rightarrow> (ps, Null)
      | Some state \<Rightarrow>
          (case findIndex (\<lambda>p. id_p p = pid) ps of
             None \<Rightarrow> (ps, Null)
           | Some i \<Rightarrow>
               if hasGuessedCorrectly (ps ! i) then (ps, Null)
               else if length ps \<le> currentPlayerIndex state
                       \<and> list_ex hasGuessedCorrectly ps then (ps, TypeError)
               else
                 let pts = guessPoints (guessRank state ps);
                     ps1 = markGuessed pts i ps
                 in if length ps1 \<le> currentPlayerIndex state then (ps1, TypeError)
                    else
                      let allG = allGuessersDone (currentPlayerIndex state) ps1;
                          ps2 = (if allG then awardDrawer (currentPlayerIndex state) ps1
                                 else ps1)
                      in (ps2, Result pts allG (ps2 ! i))))"





section \<open>Strings\<close>

text \<open>
  The built-in string functions, on strings of code units below 256 (Basic Latin and
  Latin-1 Supplement), as ECMAScript defines them. \<open>String.prototype.trim\<close> strips white
  space and line terminators from both ends: in this range tab, line feed, vertical tab,
  form feed, carriage return, space and the no-break space U+00A0.
  \<open>String.prototype.toLowerCase\<close> maps \<open>A\<close>..\<open>Z\<close> to \<open>a\<close>..\<open>z\<close> and the capital letters
  U+00C0..U+00D6 and U+00D8..U+00DE to the letters 32 places up; every other code unit of
  the range is left alone, and no mapping of the range changes the length. The regular
  expression \<open>/[a-zA-Z0-9]/\<close> is \<open>isAlnum\<close>.
\<close>

definition isWhiteSpace :: "char \<Rightarrow> bool" where
  "isWhiteSpace c \<longleftrightarrow>
     c \<in> set [CHR 0x09, CHR 0x0A, CHR 0x0B, CHR 0x0C, CHR 0x0D, CHR '' '', CHR 0xA0]"

definition trim :: "string \<Rightarrow> string" where
  "trim s = rev (dropWhile isWhiteSpace (rev (dropWhile isWhiteSpace s)))"

definition upperLetters :: "char list" where
  "upperLetters =
     ''ABCDEFGHIJKLMNOPQRSTUVWXYZ''
     @ [CHR 0xC0, CHR 0xC1, CHR 0xC2, CHR 0xC3, CHR 0xC4, CHR 0xC5,
          CHR 0xC6, CHR 0xC7, CHR 0xC8, CHR 0xC9, CHR 0xCA, CHR 0xCB,
          CHR 0xCC, CHR 0xCD, CHR 0xCE, CHR 0xCF, CHR 0xD0, CHR 0xD1,
          CHR 0xD2, CHR 0xD3, CHR 0xD4, CHR 0xD5, CHR 0xD6, CHR 0xD8,
          CHR 0xD9, CHR 0xDA, CHR 0xDB, CHR 0xDC, CHR 0xDD, CHR 0xDE]"

definition lowerLetters :: "char list" where
  "lowerLetters =
     ''abcdefghijklmnopqrstuvwxyz''
     @ [CHR 0xE0, CHR 0xE1, CHR 0xE2, CHR 0xE3, CHR 0xE4, CHR 0xE5,
          CHR 0xE6, CHR 0xE7, CHR 0xE8, CHR 0xE9, CHR 0xEA, CHR 0xEB,
          CHR 0xEC, CHR 0xED, CHR 0xEE, CHR 0xEF, CHR 0xF0, CHR 0xF1,
          CHR 0xF2, CHR 0xF3, CHR 0xF4, CHR 0xF5, CHR 0xF6, CHR 0xF8,
          CHR 0xF9, CHR 0xFA, CHR 0xFB, CHR 0xFC, CHR 0xFD, CHR 0xFE]"

definition toLowerChar :: "char \<Rightarrow> char" where
  "toLowerChar c =
     (case map_of (zip upperLetters lowerLetters) c of
        None \<Rightarrow> c
      | Some l \<Rightarrow> l)"

definition toLowerCase :: "string \<Rightarrow> string" where
  "toLowerCase s = map toLowerChar s"

definition isAlnum :: "char \<Rightarrow> bool" where
  "isAlnum c \<longleftrightarrow>
     c \<in> set (''abcdefghijklmnopqrstuvwxyz'' @ ''ABCDEFGHIJKLMNOPQRSTUVWXYZ''
                @ ''0123456789'')"



section \<open>Game state operations (gameState.js)\<close>

text \<open>
  Every operation starts with \<open>const state = gameStates.get(roomCode); if (!state) return
  null\<close> and then assigns fields of the state object. The model returns the updated map; a
  missing room leaves it unchanged. \<open>clearInterval\<close> only acts on the runtime's timer
  table, which the handle in \<open>timerInterval\<close> stands for.
\<close>

definition initialState :: GameState where
  "initialState =
     \<lparr>phase = ROOM_LOBBY, currentRound = 1, totalRounds = TOTAL_ROUNDS,
      currentPlayerIndex = 0, currentWord = None, wordOptions = [], timeLeft = 0,
      messages = [], canvasData = None, usedWords = [], timerInterval = None\<rparr>"

definition initializeGameState :: "(string \<rightharpoonup> GameState) \<Rightarrow> string \<Rightarrow> (string \<rightharpoonup> GameState)" where
  "initializeGameState games roomCode = games(roomCode \<mapsto> initialState)"

definition deleteGameState :: "(string \<rightharpoonup> GameState) \<Rightarrow> string \<Rightarrow> (string \<rightharpoonup> GameState)" where
  "deleteGameState games roomCode = games(roomCode := None)"

definition resetPlayer :: "Player \<Rightarrow> Player" where
  "resetPlayer p = p\<lparr>score := 0, hasGuessedCorrectly := False\<rparr>"

definition startGame ::
  "(string \<rightharpoonup> GameState) \<Rightarrow> string \<Rightarrow> Player list
     \<Rightarrow> (string \<rightharpoonup> GameState) \<times> Player list" where
  "startGame games roomCode ps =
     (case games roomCode of
        None \<Rightarrow> (games, ps)
      | Some state \<Rightarrow>
          (games(roomCode \<mapsto> state\<lparr>phase := ROUND_START, currentRound := 1,
                                      currentPlayerIndex := 0, messages := [],
                                      canvasData := None, usedWords := []\<rparr>),
           map resetPlayer ps))"

definition startRound :: "(string \<rightharpoonup> GameState) \<Rightarrow> string \<Rightarrow> nat \<Rightarrow> (string \<rightharpoonup> GameState)" where
  "startRound games roomCode roundNum =
     (case games roomCode of
        None \<Rightarrow> games
      | Some state \<Rightarrow>
          games(roomCode \<mapsto> state\<lparr>currentRound := roundNum, phase := ROUND_START,
                                     messages := []\<rparr>))"

text \<open>
  \<open>startTurn\<close> is asynchronous: it writes the first five fields, awaits
  \<open>generateWordOptions\<close>, and writes the rest once the words have arrived. The second
  argument of the model is the awaited result, \<open>None\<close> while (or if) it never arrives.
\<close>

definition startTurn ::
  "(string \<rightharpoonup> GameState) \<Rightarrow> string \<Rightarrow> nat \<Rightarrow> WordOption list option
     \<Rightarrow> (string \<rightharpoonup> GameState)" where
  "startTurn games roomCode playerIndex awaited =
     (case games roomCode of
        None \<Rightarrow> games
      | Some state \<Rightarrow>
          let s1 = state\<lparr>phase := TURN_START, currentPlayerIndex := playerIndex,
                         currentWord := None, canvasData := None, messages := []\<rparr>
          in (case awaited of
                None \<Rightarrow> games(roomCode \<mapsto> s1)
              | Some words \<Rightarrow>
                  games(roomCode \<mapsto> s1\<lparr>wordOptions := words,
                                          usedWords := usedWords s1 @ map word words,
                                          phase := WORD_SELECTION\<rparr>)))"

definition selectWord :: "(string \<rightharpoonup> GameState) \<Rightarrow> string \<Rightarrow> WordOption \<Rightarrow> (string \<rightharpoonup> GameState)" where
  "selectWord games roomCode w =
     (case games roomCode of
        None \<Rightarrow> games
      | Some state \<Rightarrow>
          games(roomCode \<mapsto> state\<lparr>currentWord := Some w, phase := DRAWING,
                                     timeLeft := TURN_DURATION_SECONDS, wordOptions := []\<rparr>))"

definition updateCanvas :: "(string \<rightharpoonup> GameState) \<Rightarrow> string \<Rightarrow> string option \<Rightarrow> (string \<rightharpoonup> GameState)" where
  "updateCanvas games roomCode cd =
     (case games roomCode of
        None \<Rightarrow> games
      | Some state \<Rightarrow> games(roomCode \<mapsto> state\<lparr>canvasData := cd\<rparr>))"

definition addMessage :: "(string \<rightharpoonup> GameState) \<Rightarrow> string \<Rightarrow> ChatMessage \<Rightarrow> (string \<rightharpoonup> GameState)" where
  "addMessage games roomCode m =
     (case games roomCode of
        None \<Rightarrow> games
      | Some state \<Rightarrow> games(roomCode \<mapsto> state\<lparr>messages := messages state @ [m]\<rparr>))"

definition endTurn :: "(string \<rightharpoonup> GameState) \<Rightarrow> string \<Rightarrow> (string \<rightharpoonup> GameState)" where
  "endTurn games roomCode =
     (case games roomCode of
        None \<Rightarrow> games
      | Some state \<Rightarrow>
          games(roomCode \<mapsto> state\<lparr>timerInterval := None, phase := TURN_END\<rparr>))"

definition endRound :: "(string \<rightharpoonup> GameState) \<Rightarrow> string \<Rightarrow> (string \<rightharpoonup> GameState)" where
  "endRound games roomCode =
     (case games roomCode of
        None \<Rightarrow> games
      | Some state \<Rightarrow>
          games(roomCode \<mapsto> state\<lparr>phase := (if totalRounds state \<le> currentRound state
                                                then GAME_OVER else ROUND_END)\<rparr>))"

definition resetPlayersForTurn :: "Player list \<Rightarrow> Player list" where
  "resetPlayersForTurn ps = map (\<lambda>p. p\<lparr>hasGuessedCorrectly := False\<rparr>) ps"

text \<open>\<open>decrementTimer\<close> returns the new \<open>timeLeft\<close>, or \<open>null\<close> for a missing room.\<close>

definition decrementTimer ::
  "(string \<rightharpoonup> GameState) \<Rightarrow> string \<Rightarrow> (string \<rightharpoonup> GameState) \<times> int option" where
  "decrementTimer games roomCode =
     (case games roomCode of
        None \<Rightarrow> (games, None)
      | Some state \<Rightarrow>
          (games(roomCode \<mapsto> state\<lparr>timeLeft := max 0 (timeLeft state - 1)\<rparr>),
           Some (max 0 (timeLeft state - 1))))"

text \<open>\<open>checkGuess\<close>: no state or no current word gives \<open>false\<close>.\<close>

definition checkGuess :: "(string \<rightharpoonup> GameState) \<Rightarrow> string \<Rightarrow> string \<Rightarrow> bool" where
  "checkGuess games roomCode guess =
     (case games roomCode of
        None \<Rightarrow> False
      | Some state \<Rightarrow>
          (case currentWord state of
             None \<Rightarrow> False
           | Some w \<Rightarrow>
               let normalizedGuess = toLowerCase (trim guess);
                   normalizedTarget = toLowerCase (word w)
               in normalizedGuess = normalizedTarget))"

text \<open>
  The server (index.js) writes one field of a game state directly: \<open>startTurnTimer\<close>
  stores the handle of the interval it has just created.
\<close>

definition setTimerInterval :: "(string \<rightharpoonup> GameState) \<Rightarrow> string \<Rightarrow> nat \<Rightarrow> (string \<rightharpoonup> GameState)" where
  "setTimerInterval games roomCode h =
     (case games roomCode of
        None \<Rightarrow> games
      | Some state \<Rightarrow> games(roomCode \<mapsto> state\<lparr>timerInterval := Some h\<rparr>))"

text \<open>
  The game states the server can reach: the map starts empty and is only changed through
  the operations above. (\<open>updateGameState\<close> is exported and imported but never called.)
\<close>

inductive reachable :: "(string \<rightharpoonup> GameState) \<Rightarrow> bool" where
  r_init: "reachable Map.empty"
| r_initialize: "reachable g \<Longrightarrow> reachable (initializeGameState g c)"
| r_delete: "reachable g \<Longrightarrow> reachable (deleteGameState g c)"
| r_startGame: "reachable g \<Longrightarrow> reachable (fst (startGame g c ps))"
| r_startRound: "reachable g \<Longrightarrow> reachable (startRound g c n)"
| r_startTurn: "reachable g \<Longrightarrow> reachable (startTurn g c i awaited)"
| r_selectWord: "reachable g \<Longrightarrow> reachable (selectWord g c w)"
| r_updateCanvas: "reachable g \<Longrightarrow> reachable (updateCanvas g c cd)"
| r_addMessage: "reachable g \<Longrightarrow> reachable (addMessage g c m)"
| r_endTurn: "reachable g \<Longrightarrow> reachable (endTurn g c)"
| r_endRound: "reachable g \<Longrightarrow> reachable (endRound g c)"
| r_decrementTimer: "reachable g \<Longrightarrow> reachable (fst (decrementTimer g c))"
| r_setTimerInterval: "reachable g \<Longrightarrow> reachable (setTimerInterval g c h)"

section \<open>Word masking (App.tsx, getMaskedWord)\<close>

text \<open>
  The client renders the current word for the guessers from its copy of the game state, of
  which it reads \<open>timeLeft\<close> only. \<open>word.split('')\<close> gives the characters, each is mapped
  to itself or to the placeholder, and \<open>join(' ')\<close> puts one space between neighbours.
  The function assigns nothing: the stored word is not touched.
\<close>

fun joinSpace :: "char list \<Rightarrow> string" where
  "joinSpace [] = []"
| "joinSpace [ch] = [ch]"
| "joinSpace (ch # rest) = ch # CHR '' '' # joinSpace rest"

definition getMaskedWord :: "GameState option \<Rightarrow> string \<Rightarrow> string" where
  "getMaskedWord gameState w =
     (case gameState of
        None \<Rightarrow> []
      | Some state \<Rightarrow>
          if w = [] then []
          else
            let elapsed = TURN_DURATION_SECONDS - timeLeft state;
                len = length w;
                indicesToReveal =
                  (if 30 \<le> elapsed then [0] else [])
                  @ (if 60 \<le> elapsed \<and> 4 \<le> len then [len div 2] else [])
            in joinSpace
                 (map (\<lambda>(i, ch). if \<not> isAlnum ch then ch
                                 else if i \<in> set indicesToReveal then ch
                                 else CHR ''_'')
                    (enumerate 0 w)))"

text \<open>What is displayed for position \<open>i\<close> of the word: the rendering has the characters at
  the even positions and the separating spaces at the odd ones.\<close>

definition maskedChar :: "GameState \<Rightarrow> string \<Rightarrow> nat \<Rightarrow> char" where
  "maskedChar state w i = getMaskedWord (Some state) w ! (2 * i)"

section \<open>Word pool (words.ts)\<close>

definition wordsOf :: "Category \<Rightarrow> string list \<Rightarrow> WordOption list" where
  "wordsOf cat ws = map (\<lambda>w. \<lparr>word = w, category = cat\<rparr>) ws"

definition EASY_WORDS :: "WordOption list" where
  "EASY_WORDS =
     wordsOf THING [''Cat'', ''Dog'', ''Sun'', ''Moon'', ''Tree'', ''House'', ''Car'', ''Bird'',
                    ''Fish'', ''Apple'']
     @ wordsOf ACTION [''Run'', ''Jump'', ''Dance'', ''Sing'', ''Sleep'', ''Eat'', ''Drink'',
                       ''Walk'', ''Swim'', ''Fly'']
     @ wordsOf PLACE [''Park'', ''Beach'', ''School'', ''Store'', ''Kitchen'', ''Bedroom'',
                      ''Garden'', ''Library'', ''Hospital'', ''Restaurant'']"

definition MEDIUM_WORDS :: "WordOption list" where
  "MEDIUM_WORDS =
     wordsOf THING [''Airplane'', ''Computer'', ''Guitar'', ''Camera'', ''Bicycle'',
                    ''Telescope'', ''Volcano'', ''Dinosaur'', ''Robot'', ''Submarine'']
     @ wordsOf ACTION [''Climbing'', ''Skydiving'', ''Surfing'', ''Cooking'', ''Reading'',
                       ''Painting'', ''Fishing'', ''Shopping'', ''Driving'', ''Swimming'']
     @ wordsOf PLACE [''Mountain'', ''Ocean'', ''Desert'', ''Forest'', ''City'', ''Island'',
                      ''Castle'', ''Museum'', ''Stadium'', ''Airport'']"

definition HARD_WORDS :: "WordOption list" where
  "HARD_WORDS =
     wordsOf THING [''Telescope'', ''Microscope'', ''Helicopter'', ''Submarine'',
                    ''Skyscraper'', ''Lighthouse'', ''Windmill'', ''Waterfall'', ''Rainbow'',
                    ''Thunderstorm'']
     @ wordsOf ACTION [''Photography'', ''Meditation'', ''Exercising'', ''Gardening'',
                       ''Exploring'', ''Inventing'', ''Discovering'', ''Celebrating'',
                       ''Traveling'', ''Learning'']
     @ wordsOf PLACE [''Pyramid'', ''Rainforest'', ''Waterfall'', ''Volcano'', ''Glacier'',
                      ''Canyon'', ''Observatory'', ''Laboratory'', ''Observatory'',
                      ''Planetarium'']"

text \<open>
  \<open>Math.random\<close> is modelled by a list of natural numbers handed to the function: each
  \<open>Math.floor(Math.random() * n)\<close> takes the next number, reduced modulo \<open>n\<close>, so every
  index below \<open>n\<close> can be drawn. When the list is used up the function has not returned,
  which is the value \<open>None\<close>.
\<close>

definition pickInto ::
  "WordOption list \<Rightarrow> WordOption list \<times> nat list \<Rightarrow> (WordOption list \<times> nat list) option" where
  "pickInto cands acc =
     (case acc of
        (selected, rnd) \<Rightarrow>
          if cands = [] then Some (selected, rnd)
          else (case rnd of
                  [] \<Rightarrow> None
                | r # rnd' \<Rightarrow> Some (selected @ [cands ! (r mod length cands)], rnd')))"

text \<open>The loop \<open>while (selected.length < 3 && availableWords.length > 0)\<close>.\<close>

fun fillFromPool :: "WordOption list \<Rightarrow> WordOption list \<Rightarrow> nat list \<Rightarrow> WordOption list option" where
  "fillFromPool selected availableWords rnd =
     (if length selected < 3 \<and> availableWords \<noteq> [] then
        (case rnd of
           [] \<Rightarrow> None
         | r # rnd' \<Rightarrow>
             let randomWord = availableWords ! (r mod length availableWords)
             in if list_ex (\<lambda>w. word w = word randomWord) selected
                then fillFromPool selected availableWords rnd'
                else fillFromPool (selected @ [randomWord]) availableWords rnd')
      else Some selected)"

text \<open>Everything up to the final shuffle: \<open>selected.slice(0, 3)\<close>.\<close>

definition selectWordOptions :: "nat \<Rightarrow> string list \<Rightarrow> nat list \<Rightarrow> WordOption list option" where
  "selectWordOptions round excludeWords rnd =
     (let wordPool = (if round = 1 then EASY_WORDS
                      else if round = 2 then MEDIUM_WORDS else HARD_WORDS);
          availableWords = filter (\<lambda>w. word w \<notin> set excludeWords) wordPool;
          actionWords = filter (\<lambda>w. category w = ACTION) availableWords;
          thingWords = filter (\<lambda>w. category w = THING) availableWords;
          placeWords = filter (\<lambda>w. category w = PLACE) availableWords
      in (case pickInto actionWords ([], rnd) of
            None \<Rightarrow> None
          | Some a \<Rightarrow>
          (case pickInto thingWords a of
            None \<Rightarrow> None
          | Some b \<Rightarrow>
          (case pickInto placeWords b of
            None \<Rightarrow> None
          | Some (selected, rnd') \<Rightarrow>
              map_option (take 3) (fillFromPool selected availableWords rnd')))))"

text \<open>
  \<open>generateWordOptions\<close> returns the selection sorted with a random comparator, that is,
  in some order: \<open>out\<close> is a possible result when it is a rearrangement of the selection.
\<close>

definition generateWordOptions :: "nat \<Rightarrow> string list \<Rightarrow> nat list \<Rightarrow> WordOption list \<Rightarrow> bool" where
  "generateWordOptions round excludeWords rnd out =
     (case selectWordOptions round excludeWords rnd of
        None \<Rightarrow> False
      | Some selected \<Rightarrow> mset out = mset selected)"

section \<open>Room registry (rooms.js)\<close>

text \<open>
  \<open>createRoom\<close> draws the room code at random; the model takes it as an argument. The
  server always calls it without a host, so \<open>hostId\<close> starts as \<open>null\<close>.
\<close>

definition createRoom ::
  "(string \<rightharpoonup> Room) \<Rightarrow> string \<Rightarrow> string \<Rightarrow> bool \<Rightarrow> string option \<Rightarrow> string option
     \<Rightarrow> (string \<rightharpoonup> Room) \<times> Room" where
  "createRoom rs roomCode roomName priv pw host =
     (let room = \<lparr>id_r = roomCode, name_r = roomName, isPrivate = priv, password = pw,
                   hostId = host, players = [], maxPlayers = 8, status = WAITING\<rparr>
      in (rs(roomCode \<mapsto> room), room))"

text \<open>
  \<open>addPlayerToRoom\<close> answers \<open>{success: false, error}\<close> (\<open>Inl\<close> of the error text) or
  \<open>{success: true, room}\<close> (\<open>Inr\<close>). The checks come in the order of the source.
\<close>

definition addPlayerToRoom ::
  "(string \<rightharpoonup> Room) \<Rightarrow> string \<Rightarrow> Player \<Rightarrow> (string \<rightharpoonup> Room) \<times> (string + Room)" where
  "addPlayerToRoom rs roomCode p =
     (case rs roomCode of
        None \<Rightarrow> (rs, Inl ''Room not found'')
      | Some room \<Rightarrow>
          if maxPlayers room \<le> length (players room) then (rs, Inl ''Room is full'')
          else if status room = PLAYING then (rs, Inl ''Game already in progress'')
          else if list_ex (\<lambda>q. id_p q = id_p p) (players room) then (rs, Inr room)
          else
            let pushed = room\<lparr>players := players room @ [p]\<rparr>;
                room' = (if length (players pushed) = 1
                         then pushed\<lparr>hostId := Some (id_p p)\<rparr> else pushed)
            in (rs(roomCode \<mapsto> room'), Inr room'))"

text \<open>
  \<open>removePlayerFromRoom\<close> answers \<open>{success: false, error}\<close> or
  \<open>{success: true, room, deleted}\<close>.
\<close>

datatype RemoveResult =
  RemoveError string
  | Removed (removedRoom: "Room option") (deleted: bool)

definition removePlayerFromRoom ::
  "(string \<rightharpoonup> Room) \<Rightarrow> string \<Rightarrow> string \<Rightarrow> (string \<rightharpoonup> Room) \<times> RemoveResult" where
  "removePlayerFromRoom rs roomCode pid =
     (case rs roomCode of
        None \<Rightarrow> (rs, RemoveError ''Room not found'')
      | Some room \<Rightarrow>
          let filtered = room\<lparr>players := filter (\<lambda>p. id_p p \<noteq> pid) (players room)\<rparr>
          in if length (players filtered) = 0
             then (rs(roomCode := None), Removed None True)
             else
               let room' = (if hostId filtered = Some pid \<and> 0 < length (players filtered)
                            then filtered\<lparr>hostId := Some (id_p (players filtered ! 0))\<rparr>
                            else filtered)
               in (rs(roomCode \<mapsto> room'), Removed (Some room') False))"

definition updateRoomStatus :: "(string \<rightharpoonup> Room) \<Rightarrow> string \<Rightarrow> RoomStatus \<Rightarrow> (string \<rightharpoonup> Room)" where
  "updateRoomStatus rs roomCode st =
     (case rs roomCode of
        None \<Rightarrow> rs
      | Some room \<Rightarrow> rs(roomCode \<mapsto> room\<lparr>status := st\<rparr>))"

text \<open>
  The registries the server can reach: it starts empty, rooms are created without a host,
  members come and go through the two functions above, and the status is switched when a
  game starts or restarts.
\<close>

inductive reachableRooms :: "(string \<rightharpoonup> Room) \<Rightarrow> bool" where
  rr_init: "reachableRooms Map.empty"
| rr_create: "reachableRooms rs \<Longrightarrow> reachableRooms (fst (createRoom rs c nm priv pw None))"
| rr_add: "reachableRooms rs \<Longrightarrow> reachableRooms (fst (addPlayerToRoom rs c p))"
| rr_remove: "reachableRooms rs \<Longrightarrow> reachableRooms (fst (removePlayerFromRoom rs c pid))"
| rr_status: "reachableRooms rs \<Longrightarrow> reachableRooms (updateRoomStatus rs c st)"

text \<open>What holds of every room in such a registry: ids are unique, and the host is the
  first member (no host while the room is still empty).\<close>

definition roomOk :: "Room \<Rightarrow> bool" where
  "roomOk r \<longleftrightarrow>
     distinct (map id_p (players r))
     \<and> hostId r = (case players r of [] \<Rightarrow> None | h # _ \<Rightarrow> Some (id_p h))"

section \<open>The server (index.js)\<close>

text \<open>
  The server state is the two stores, the two socket maps and the runtime's queue of
  pending \<open>setTimeout\<close> callbacks, each with its delay in milliseconds. Emissions to the
  clients (\<open>broadcastRoomState\<close>, \<open>console.log\<close>) change no state and are not recorded;
  the answer passed to a handler's \<open>callback\<close> is the handler's result.
  \<open>TurnEndTask c\<close> is the callback \<open>() => handleTurnEnd(c)\<close>; \<open>AdvanceTask c\<close> is the
  callback that \<open>handleTurnEnd\<close> schedules to start the next turn or end the round.
\<close>

datatype Task =
  TurnEndTask string
  | AdvanceTask string

record Server =
  rooms :: "string \<rightharpoonup> Room"
  gameStates :: "string \<rightharpoonup> GameState"
  socketToPlayer :: "string \<rightharpoonup> string"
  socketToRoom :: "string \<rightharpoonup> string"
  timeouts :: "(nat \<times> Task) list"

definition systemMessage :: "string \<Rightarrow> ChatMessage" where
  "systemMessage t =
     \<lparr>playerId = ''system'', playerName = ''Host'', text_m = t, isSystem = True,
      isCorrectGuess = None\<rparr>"


text \<open>The template \<open>`Time's up! The word was: ${gameState.currentWord?.word}`\<close>.\<close>

definition revealText :: "GameState \<Rightarrow> string" where
  "revealText state =
     ''Time'' @ [CHR 0x27] @ ''s up! The word was: ''
       @ (case currentWord state of None \<Rightarrow> ''undefined'' | Some w \<Rightarrow> word w)"

text \<open>
  \<open>handleTurnEnd\<close>: end the turn, log the reveal message, and schedule the advance to the
  next turn (or the end of the round) six seconds later.
\<close>

definition handleTurnEnd :: "Server \<Rightarrow> string \<Rightarrow> Server" where
  "handleTurnEnd srv roomCode =
     (case rooms srv roomCode of
        None \<Rightarrow> srv
      | Some room \<Rightarrow>
          (case gameStates srv roomCode of
             None \<Rightarrow> srv
           | Some gameState \<Rightarrow>
               let g1 = endTurn (gameStates srv) roomCode;
                   g2 = addMessage g1 roomCode (systemMessage (revealText gameState))
               in srv\<lparr>gameStates := g2,
                       timeouts := timeouts srv @ [(6000, AdvanceTask roomCode)]\<rparr>))"



text \<open>
  The \<open>leave-room\<close> handler. \<open>if (roomCode && playerId)\<close> also fails on an empty string.
  The handler always answers \<open>{success: true}\<close>.
\<close>

definition leaveRoom :: "Server \<Rightarrow> string \<Rightarrow> Server" where
  "leaveRoom srv sock =
     (case socketToRoom srv sock of
        None \<Rightarrow> srv
      | Some roomCode \<Rightarrow>
     (case socketToPlayer srv sock of
        None \<Rightarrow> srv
      | Some pid \<Rightarrow>
          if roomCode = [] \<or> pid = [] then srv
          else
            (case removePlayerFromRoom (rooms srv) roomCode pid of
               (rs', result) \<Rightarrow>
                 let srv1 = srv\<lparr>rooms := rs',
                                 socketToPlayer := (socketToPlayer srv)(sock := None),
                                 socketToRoom := (socketToRoom srv)(sock := None)\<rparr>
                 in (case result of
                       Removed r True \<Rightarrow>
                         srv1\<lparr>gameStates := deleteGameState (gameStates srv1) roomCode\<rparr>
                     | _ \<Rightarrow> srv1))))"

section \<open>Example data\<close>

text \<open>A player as the client creates it on entering a room (App.tsx, handleEnterRoom).\<close>

definition newPlayer :: "string \<Rightarrow> string \<Rightarrow> Player" where
  "newPlayer i n = \<lparr>id_p = i, name_p = n, score = 0, hasGuessedCorrectly = False\<rparr>"

definition exPlayers :: "Player list" where
  "exPlayers =
     [newPlayer ''p-ann'' ''Ann'', newPlayer ''p-bob'' ''Bob'', newPlayer ''p-cy'' ''Cy'',
      newPlayer ''p-dee'' ''Dee'', newPlayer ''p-eve'' ''Eve'', newPlayer ''p-fay'' ''Fay'']"


definition exState :: GameState where
  "exState =
     \<lparr>phase = DRAWING, currentRound = 1, totalRounds = 3, currentPlayerIndex = 0,
      currentWord = Some \<lparr>word = ''Cat'', category = THING\<rparr>, wordOptions = [],
      timeLeft = 42, messages = [], canvasData = None,
      usedWords = [''Run'', ''Cat'', ''Park''], timerInterval = Some 1\<rparr>"

definition exGames :: "string \<rightharpoonup> GameState" where
  "exGames = [''ROOM01'' \<mapsto> exState]"

text \<open>A room in the middle of a game, Ann drawing, and the server that holds it.\<close>

definition exRoom :: Room where
  "exRoom =
     \<lparr>id_r = ''ROOM01'', name_r = ''Doodlers'', isPrivate = False, password = None,
      hostId = Some ''p-ann'', players = exPlayers, maxPlayers = 8, status = PLAYING\<rparr>"

definition exServer :: Server where
  "exServer =
     \<lparr>rooms = [''ROOM01'' \<mapsto> exRoom], gameStates = exGames,
      socketToPlayer = [''s-ann'' \<mapsto> ''p-ann'', ''s-bob'' \<mapsto> ''p-bob''],
      socketToRoom = [''s-ann'' \<mapsto> ''ROOM01'', ''s-bob'' \<mapsto> ''ROOM01''],
      timeouts = []\<rparr>"


definition exLobby :: Room where
  "exLobby = exRoom\<lparr>id_r := ''ROOM03'', players := take 1 exPlayers, status := WAITING\<rparr>"

definition exSolo :: Server where
  "exSolo =
     \<lparr>rooms = [''ROOM03'' \<mapsto> exLobby],
      gameStates = [''ROOM03'' \<mapsto> initialState],
      socketToPlayer = [''s-ann'' \<mapsto> ''p-ann''],
      socketToRoom = [''s-ann'' \<mapsto> ''ROOM03''],
      timeouts = []\<rparr>"

text \<open>A full lobby: eight players waiting.\<close>

definition exFull :: Room where
  "exFull =
     \<lparr>id_r = ''ROOM04'', name_r = ''Packed'', isPrivate = False, password = None,
      hostId = Some ''p-ann'',
      players = exPlayers @ [newPlayer ''p-gus'' ''Gus'', newPlayer ''p-hal'' ''Hal''],
      maxPlayers = 8, status = WAITING\<rparr>"

text \<open>A registry built by the registry's own operations: a room and three joins.\<close>

definition exBuilt :: "string \<rightharpoonup> Room" where
  "exBuilt =
     fst (addPlayerToRoom
       (fst (addPlayerToRoom
         (fst (addPlayerToRoom
           (fst (createRoom Map.empty ''ROOM06'' ''Trio'' False None None))
           ''ROOM06'' (newPlayer ''p-ann'' ''Ann'')))
         ''ROOM06'' (newPlayer ''p-bob'' ''Bob'')))
       ''ROOM06'' (newPlayer ''p-cy'' ''Cy''))"
section \<open>Lemmas on the helpers\<close>


lemma findIndex_Some:
  "findIndex P xs = Some i \<Longrightarrow> i < length xs \<and> P (xs ! i) \<and> (\<forall>j<i. \<not> P (xs ! j))"
proof (induction xs arbitrary: i)
  case Nil
  then show ?case by simp
next
  case (Cons x xs)
  show ?case
  proof (cases "P x")
    case True
    with Cons.prems show ?thesis by simp
  next
    case False
    with Cons.prems obtain k where k: "findIndex P xs = Some k" "i = Suc k"
      by auto
    from Cons.IH[OF k(1)] False k(2) show ?thesis
      by (auto simp: nth_Cons split: nat.splits)
  qed
qed

lemma findIndex_ids: "findIndex (\<lambda>p. id_p p = pid) ps = findIndex (\<lambda>x. x = pid) (map id_p ps)"
  by (induction ps) auto

lemma length_markGuessed [simp]: "length (markGuessed pts i ps) = length ps"
  by (simp add: markGuessed_def)

lemma length_awardDrawer [simp]: "length (awardDrawer d ps) = length ps"
  by (simp add: awardDrawer_def)

lemma ids_markGuessed [simp]: "map id_p (markGuessed pts i ps) = map id_p ps"
  by (cases "i < length ps") (simp_all add: markGuessed_def credit_def map_update list_update_same_conv list_update_beyond)

lemma ids_awardDrawer [simp]: "map id_p (awardDrawer d ps) = map id_p ps"
  by (cases "d < length ps") (simp_all add: awardDrawer_def credit_def map_update list_update_same_conv list_update_beyond)

lemma flag_markGuessed: "i < length ps \<Longrightarrow> hasGuessedCorrectly (markGuessed pts i ps ! i)"
  by (simp add: markGuessed_def)

lemma flags_awardDrawer [simp]: "map hasGuessedCorrectly (awardDrawer d ps) = map hasGuessedCorrectly ps"
  by (cases "d < length ps") (simp_all add: awardDrawer_def credit_def map_update list_update_same_conv list_update_beyond)

lemma flag_awardDrawer: "hasGuessedCorrectly (awardDrawer d ps ! j) = hasGuessedCorrectly (ps ! j)"
  by (cases "d < length ps"; cases "j = d") (simp_all add: awardDrawer_def credit_def list_update_beyond)

lemma handleCorrectGuess_ResultD:
  assumes "handleCorrectGuess games roomCode pid ps = (ps', Result pts ag pl)"
  shows "\<exists>state i. games roomCode = Some state
          \<and> findIndex (\<lambda>p. id_p p = pid) ps = Some i
          \<and> \<not> hasGuessedCorrectly (ps ! i)
          \<and> currentPlayerIndex state < length ps
          \<and> pts = guessPoints (guessRank state ps)
          \<and> ag = allGuessersDone (currentPlayerIndex state) (markGuessed pts i ps)
          \<and> ps' = (if ag then awardDrawer (currentPlayerIndex state) (markGuessed pts i ps)
                   else markGuessed pts i ps)
          \<and> pl = ps' ! i"
  using assms
  by (auto simp: handleCorrectGuess_def Let_def split: option.splits if_splits)


lemma second_null:
  assumes ok: "handleCorrectGuess games roomCode pid ps = (ps', Result pts ag pl)"
  shows "handleCorrectGuess games roomCode pid ps' = (ps', Null)"
proof -
  from handleCorrectGuess_ResultD[OF ok] obtain state i where
    st: "games roomCode = Some state" and
    fi: "findIndex (\<lambda>p. id_p p = pid) ps = Some i" and
    ps': "ps' = (if ag then awardDrawer (currentPlayerIndex state) (markGuessed pts i ps)
                   else markGuessed pts i ps)"
    by blast
  from findIndex_Some[OF fi] have i: "i < length ps" by simp
  have ids: "map id_p ps' = map id_p ps" by (simp add: ps')
  have fi': "findIndex (\<lambda>p. id_p p = pid) ps' = Some i"
    using fi ids by (simp add: findIndex_ids)
  have "hasGuessedCorrectly (ps' ! i)"
    using i flag_markGuessed[OF i, of pts] by (simp add: ps' flag_awardDrawer)
  with st fi' show ?thesis
    by (simp add: handleCorrectGuess_def)
qed


















section \<open>Scoring\<close>

text \<open>
  C10. The failure path of \<open>handleCorrectGuess\<close> is atomic: when no player of the list has
  the given id, or the player found already has \<open>hasGuessedCorrectly\<close> set, the function
  returns \<open>null\<close> and the player list (every score and every flag) is returned unchanged.
  Consequently, once a guess has been credited, a second call for the same player in the
  same turn returns \<open>null\<close> and changes nothing: nobody is paid guess points twice.
\<close>

theorem C10_failure_path_atomic:
  "(findIndex (\<lambda>p. id_p p = pid) ps = None
      \<or> (\<exists>i. findIndex (\<lambda>p. id_p p = pid) ps = Some i \<and> hasGuessedCorrectly (ps ! i))
    \<longrightarrow> handleCorrectGuess games roomCode pid ps = (ps, Null))
   \<and> (handleCorrectGuess games roomCode pid ps = (ps', Result pts ag pl)
    \<longrightarrow> handleCorrectGuess games roomCode pid ps' = (ps', Null))"
proof (intro conjI impI)
  assume "findIndex (\<lambda>p. id_p p = pid) ps = None
      \<or> (\<exists>i. findIndex (\<lambda>p. id_p p = pid) ps = Some i \<and> hasGuessedCorrectly (ps ! i))"
  then show "handleCorrectGuess games roomCode pid ps = (ps, Null)"
    by (auto simp: handleCorrectGuess_def split: option.splits)
next
  assume "handleCorrectGuess games roomCode pid ps = (ps', Result pts ag pl)"
  then show "handleCorrectGuess games roomCode pid ps' = (ps', Null)"
    by (rule second_null)
qed

theorem C10_failure_path_atomic_witness:
  "handleCorrectGuess exGames ''ROOM01'' ''p-zed'' exPlayers = (exPlayers, Null)
   \<and> handleCorrectGuess exGames ''ROOM01'' ''p-bob'' exPlayers
       = (exPlayers[1 := \<lparr>id_p = ''p-bob'', name_p = ''Bob'', score = 500,
                           hasGuessedCorrectly = True\<rparr>],
          Result 500 False
            \<lparr>id_p = ''p-bob'', name_p = ''Bob'', score = 500, hasGuessedCorrectly = True\<rparr>)
   \<and> handleCorrectGuess exGames ''ROOM01'' ''p-bob''
         (exPlayers[1 := \<lparr>id_p = ''p-bob'', name_p = ''Bob'', score = 500,
                           hasGuessedCorrectly = True\<rparr>])
       = (exPlayers[1 := \<lparr>id_p = ''p-bob'', name_p = ''Bob'', score = 500,
                           hasGuessedCorrectly = True\<rparr>], Null)"
proof -
  have none: "findIndex (\<lambda>p. id_p p = ''p-zed'') exPlayers = None"
    by (simp add: exPlayers_def newPlayer_def)
  have first: "handleCorrectGuess exGames ''ROOM01'' ''p-bob'' exPlayers
       = (exPlayers[1 := \<lparr>id_p = ''p-bob'', name_p = ''Bob'', score = 500,
                           hasGuessedCorrectly = True\<rparr>],
          Result 500 False
            \<lparr>id_p = ''p-bob'', name_p = ''Bob'', score = 500, hasGuessedCorrectly = True\<rparr>)"
    by (simp add: handleCorrectGuess_def exGames_def exState_def exPlayers_def newPlayer_def
          guessRank_def guessPoints_def markGuessed_def allGuessersDone_def credit_def
          POINTS_GUESS_BASE_def POINTS_GUESS_DECAY_def)
  from C10_failure_path_atomic[of "''p-zed''" exPlayers exGames "''ROOM01''"] none
  have a: "handleCorrectGuess exGames ''ROOM01'' ''p-zed'' exPlayers = (exPlayers, Null)"
    by simp
  from C10_failure_path_atomic[THEN conjunct2, THEN mp, OF first]
  have b: "handleCorrectGuess exGames ''ROOM01'' ''p-bob''
         (exPlayers[1 := \<lparr>id_p = ''p-bob'', name_p = ''Bob'', score = 500,
                           hasGuessedCorrectly = True\<rparr>])
       = (exPlayers[1 := \<lparr>id_p = ''p-bob'', name_p = ''Bob'', score = 500,
                           hasGuessedCorrectly = True\<rparr>], Null)"
    by simp
  from a first b show ?thesis by simp
qed







section \<open>The end of a turn\<close>

text \<open>
  C1 (not met by the server). The specification asks that a second \<open>handleTurnEnd\<close> on the
  same room, as when the timer expiry and the all-guessed early end both fire, be a no-op
  decided by the current phase. The server's \<open>endTurn\<close> and \<open>handleTurnEnd\<close> have no such
  guard (the client-side \<open>endTurn\<close> of useGameLogic.ts has it). On the example room the
  first call moves the phase to \<open>TURN_END\<close> and logs the reveal message; the second call
  logs the reveal message again and schedules a second advance.
\<close>

theorem C1_second_turn_end_repeats_reveal:
  "map_option phase (gameStates (handleTurnEnd exServer ''ROOM01'') ''ROOM01'') = Some TURN_END
   \<and> map_option (map text_m \<circ> messages)
        (gameStates (handleTurnEnd exServer ''ROOM01'') ''ROOM01'')
       = Some [''Time'' @ [CHR 0x27] @ ''s up! The word was: Cat'']
   \<and> map_option (map text_m \<circ> messages)
        (gameStates (handleTurnEnd (handleTurnEnd exServer ''ROOM01'') ''ROOM01'') ''ROOM01'')
       = Some [''Time'' @ [CHR 0x27] @ ''s up! The word was: Cat'',
               ''Time'' @ [CHR 0x27] @ ''s up! The word was: Cat'']
   \<and> timeouts (handleTurnEnd (handleTurnEnd exServer ''ROOM01'') ''ROOM01'')
       = [(6000, AdvanceTask ''ROOM01''), (6000, AdvanceTask ''ROOM01'')]"
  by (simp add: handleTurnEnd_def endTurn_def addMessage_def systemMessage_def revealText_def
        exServer_def exRoom_def exGames_def exState_def)

text \<open>The same for every room that exists: two calls leave two reveal messages.\<close>

lemma handleTurnEnd_twice:
  assumes "rooms srv c = Some r" and "gameStates srv c = Some st"
  shows "gameStates (handleTurnEnd (handleTurnEnd srv c) c) c
           = Some (st\<lparr>timerInterval := None, phase := TURN_END,
                      messages := messages st @ [systemMessage (revealText st),
                                                 systemMessage (revealText st)]\<rparr>)"
  using assms
  by (simp add: handleTurnEnd_def endTurn_def addMessage_def Let_def revealText_def)





section \<open>The timer\<close>

lemma timeLeft_nonneg:
  "reachable g \<Longrightarrow> g c = Some st \<Longrightarrow> 0 \<le> timeLeft st"
proof (induction arbitrary: c st rule: reachable.induct)
  case r_init
  then show ?case by simp
next
  case (r_initialize g c')
  then show ?case
    by (auto simp: initializeGameState_def initialState_def split: if_splits)
next
  case (r_delete g c')
  then show ?case
    by (auto simp: deleteGameState_def split: if_splits)
next
  case (r_startGame g c' ps)
  then show ?case
    by (auto simp: startGame_def split: option.splits if_splits)
next
  case (r_startRound g c' n)
  then show ?case
    by (auto simp: startRound_def split: option.splits if_splits)
next
  case (r_startTurn g c' i awaited)
  then show ?case
    by (auto simp: startTurn_def Let_def split: option.splits if_splits)
next
  case (r_selectWord g c' w)
  then show ?case
    by (auto simp: selectWord_def TURN_DURATION_SECONDS_def split: option.splits if_splits)
next
  case (r_updateCanvas g c' cd)
  then show ?case
    by (auto simp: updateCanvas_def split: option.splits if_splits)
next
  case (r_addMessage g c' m)
  then show ?case
    by (auto simp: addMessage_def split: option.splits if_splits)
next
  case (r_endTurn g c')
  then show ?case
    by (auto simp: endTurn_def split: option.splits if_splits)
next
  case (r_endRound g c')
  then show ?case
    by (auto simp: endRound_def split: option.splits if_splits)
next
  case (r_decrementTimer g c')
  then show ?case
    by (auto simp: decrementTimer_def split: option.splits if_splits)
next
  case (r_setTimerInterval g c' h)
  then show ?case
    by (auto simp: setTimerInterval_def split: option.splits if_splits)
qed

text \<open>
  C9. In every game state the server can reach, \<open>timeLeft\<close> is not negative: a new state
  starts with 0, \<open>selectWord\<close> sets 80, \<open>decrementTimer\<close> stores (and returns)
  \<open>max 0 (timeLeft - 1)\<close>, and no other operation writes the field.
\<close>

theorem C9_timeLeft_never_negative:
  "(reachable g \<and> g c = Some st \<longrightarrow> 0 \<le> timeLeft st)
   \<and> map_option timeLeft (initializeGameState g c c) = Some 0
   \<and> (g c = Some st \<longrightarrow> map_option timeLeft (selectWord g c w c) = Some 80)
   \<and> (g c = Some st \<longrightarrow>
        decrementTimer g c
          = (g(c \<mapsto> st\<lparr>timeLeft := max 0 (timeLeft st - 1)\<rparr>), Some (max 0 (timeLeft st - 1))))"
  by (auto simp: timeLeft_nonneg initializeGameState_def initialState_def selectWord_def
        TURN_DURATION_SECONDS_def decrementTimer_def)

theorem C9_timeLeft_never_negative_witness:
  "reachable (fst (decrementTimer (initializeGameState Map.empty ''ROOM01'') ''ROOM01''))
   \<and> decrementTimer (initializeGameState Map.empty ''ROOM01'') ''ROOM01''
       = ([''ROOM01'' \<mapsto> initialState], Some 0)
   \<and> map_option timeLeft
        (selectWord (initializeGameState Map.empty ''ROOM01'') ''ROOM01''
           \<lparr>word = ''Cat'', category = THING\<rparr> ''ROOM01'') = Some 80
   \<and> (0::int) \<le> timeLeft initialState"
proof -
  let ?g = "initializeGameState Map.empty ''ROOM01''"
  have r: "reachable (fst (decrementTimer ?g ''ROOM01''))"
    by (intro reachable.intros)
  have g: "?g ''ROOM01'' = Some initialState"
    by (simp add: initializeGameState_def)
  have d: "fst (decrementTimer ?g ''ROOM01'') ''ROOM01'' = Some initialState"
    by (simp add: decrementTimer_def initializeGameState_def initialState_def)
  note inst1 = C9_timeLeft_never_negative[of "fst (decrementTimer ?g ''ROOM01'')" "''ROOM01''"
      initialState]
  note inst2 = C9_timeLeft_never_negative[of ?g "''ROOM01''" initialState
      "\<lparr>word = ''Cat'', category = THING\<rparr>"]
  from inst1 r d have nn: "0 \<le> timeLeft initialState" by blast
  from inst2 g have sel: "map_option timeLeft
        (selectWord ?g ''ROOM01'' \<lparr>word = ''Cat'', category = THING\<rparr> ''ROOM01'') = Some 80"
    by blast
  from inst2 g have "decrementTimer ?g ''ROOM01''
      = (?g(''ROOM01'' \<mapsto> initialState\<lparr>timeLeft := max 0 (timeLeft initialState - 1)\<rparr>),
         Some (max 0 (timeLeft initialState - 1)))"
    by blast
  then have dec: "decrementTimer ?g ''ROOM01'' = ([''ROOM01'' \<mapsto> initialState], Some 0)"
    by (simp add: initializeGameState_def initialState_def)
  from r dec sel nn show ?thesis by blast
qed

section \<open>The room registry\<close>

text \<open>
  C5 (as the code has it). \<open>addPlayerToRoom\<close> fails with "Room not found" when no room has
  the code; otherwise with "Room is full" when the member count has reached the capacity
  (8 for every room \<open>createRoom\<close> makes); otherwise with "Game already in progress" when
  the status is \<open>PLAYING\<close>. These three checks come first and apply to every caller, a
  current member included. Only when none of them fires does a player whose id is already
  in the room get the room back unchanged; any other player is appended and, when the
  room was empty, becomes its host.
\<close>

theorem C5_addPlayer_checks_in_order:
  "(rs c = None \<longrightarrow> addPlayerToRoom rs c p = (rs, Inl ''Room not found''))
   \<and> (rs c = Some r \<and> maxPlayers r \<le> length (players r) \<longrightarrow>
        addPlayerToRoom rs c p = (rs, Inl ''Room is full''))
   \<and> (rs c = Some r \<and> length (players r) < maxPlayers r \<and> status r = PLAYING \<longrightarrow>
        addPlayerToRoom rs c p = (rs, Inl ''Game already in progress''))
   \<and> (rs c = Some r \<and> length (players r) < maxPlayers r \<and> status r \<noteq> PLAYING
        \<and> id_p p \<in> id_p ` set (players r) \<longrightarrow>
        addPlayerToRoom rs c p = (rs, Inr r))
   \<and> (rs c = Some r \<and> length (players r) < maxPlayers r \<and> status r \<noteq> PLAYING
        \<and> id_p p \<notin> id_p ` set (players r) \<longrightarrow>
        addPlayerToRoom rs c p
          = (rs(c \<mapsto> r\<lparr>players := players r @ [p],
                         hostId := (if players r = [] then Some (id_p p) else hostId r)\<rparr>),
             Inr (r\<lparr>players := players r @ [p],
                    hostId := (if players r = [] then Some (id_p p) else hostId r)\<rparr>)))
   \<and> maxPlayers (snd (createRoom rs c nm priv pw None)) = 8
   \<and> players (snd (createRoom rs c nm priv pw None)) = []"
  by (auto simp: addPlayerToRoom_def createRoom_def list_ex_iff Let_def image_iff)

theorem C5_addPlayer_checks_in_order_witness:
  "addPlayerToRoom Map.empty ''NOROOM'' (newPlayer ''p-zed'' ''Zed'')
       = (Map.empty, Inl ''Room not found'')
   \<and> addPlayerToRoom [''ROOM04'' \<mapsto> exFull] ''ROOM04'' (newPlayer ''p-zed'' ''Zed'')
       = ([''ROOM04'' \<mapsto> exFull], Inl ''Room is full'')
   \<and> addPlayerToRoom [''ROOM01'' \<mapsto> exRoom] ''ROOM01'' (newPlayer ''p-zed'' ''Zed'')
       = ([''ROOM01'' \<mapsto> exRoom], Inl ''Game already in progress'')
   \<and> addPlayerToRoom [''ROOM03'' \<mapsto> exLobby] ''ROOM03'' (newPlayer ''p-ann'' ''Ann'')
       = ([''ROOM03'' \<mapsto> exLobby], Inr exLobby)
   \<and> addPlayerToRoom (fst (createRoom Map.empty ''ROOM05'' ''Fresh'' False None None))
         ''ROOM05'' (newPlayer ''p-ann'' ''Ann'')
       = ([''ROOM05'' \<mapsto>
             \<lparr>id_r = ''ROOM05'', name_r = ''Fresh'', isPrivate = False, password = None,
              hostId = Some ''p-ann'', players = [newPlayer ''p-ann'' ''Ann''],
              maxPlayers = 8, status = WAITING\<rparr>],
          Inr \<lparr>id_r = ''ROOM05'', name_r = ''Fresh'', isPrivate = False, password = None,
               hostId = Some ''p-ann'', players = [newPlayer ''p-ann'' ''Ann''],
               maxPlayers = 8, status = WAITING\<rparr>)"
proof -
  have 1: "addPlayerToRoom Map.empty ''NOROOM'' (newPlayer ''p-zed'' ''Zed'')
       = (Map.empty, Inl ''Room not found'')"
    using C5_addPlayer_checks_in_order[of Map.empty "''NOROOM''", THEN conjunct1]
    by simp
  have 2: "addPlayerToRoom [''ROOM04'' \<mapsto> exFull] ''ROOM04'' (newPlayer ''p-zed'' ''Zed'')
       = ([''ROOM04'' \<mapsto> exFull], Inl ''Room is full'')"
    using C5_addPlayer_checks_in_order[of "[''ROOM04'' \<mapsto> exFull]" "''ROOM04''" _ exFull,
        THEN conjunct2, THEN conjunct1]
    by (simp add: exFull_def exPlayers_def)
  have 3: "addPlayerToRoom [''ROOM01'' \<mapsto> exRoom] ''ROOM01'' (newPlayer ''p-zed'' ''Zed'')
       = ([''ROOM01'' \<mapsto> exRoom], Inl ''Game already in progress'')"
    using C5_addPlayer_checks_in_order[of "[''ROOM01'' \<mapsto> exRoom]" "''ROOM01''" _ exRoom,
        THEN conjunct2, THEN conjunct2, THEN conjunct1]
    by (simp add: exRoom_def exPlayers_def)
  have 4: "addPlayerToRoom [''ROOM03'' \<mapsto> exLobby] ''ROOM03'' (newPlayer ''p-ann'' ''Ann'')
       = ([''ROOM03'' \<mapsto> exLobby], Inr exLobby)"
    using C5_addPlayer_checks_in_order[of "[''ROOM03'' \<mapsto> exLobby]" "''ROOM03''"
        "newPlayer ''p-ann'' ''Ann''" exLobby,
        THEN conjunct2, THEN conjunct2, THEN conjunct2, THEN conjunct1]
    by (simp add: exLobby_def exRoom_def exPlayers_def newPlayer_def)
  let ?fresh = "\<lparr>id_r = ''ROOM05'', name_r = ''Fresh'', isPrivate = False, password = None,
              hostId = None, players = [], maxPlayers = 8, status = WAITING\<rparr>"
  have 5: "addPlayerToRoom [''ROOM05'' \<mapsto> ?fresh] ''ROOM05'' (newPlayer ''p-ann'' ''Ann'')
       = ([''ROOM05'' \<mapsto> ?fresh\<lparr>players := [newPlayer ''p-ann'' ''Ann''], hostId := Some ''p-ann''\<rparr>],
          Inr (?fresh\<lparr>players := [newPlayer ''p-ann'' ''Ann''], hostId := Some ''p-ann''\<rparr>))"
    using C5_addPlayer_checks_in_order[of "[''ROOM05'' \<mapsto> ?fresh]" "''ROOM05''"
        "newPlayer ''p-ann'' ''Ann''" ?fresh,
        THEN conjunct2, THEN conjunct2, THEN conjunct2, THEN conjunct2, THEN conjunct1]
    by (simp add: newPlayer_def)
  from 1 2 3 4 5 show ?thesis
    by (simp add: createRoom_def Let_def)
qed

text \<open>
  C5 in the specification's wording fails: it exempts a player who is already a member
  from the "full" and "in progress" errors. Ann is a member of the running game \<open>ROOM01\<close>
  and of the full lobby \<open>ROOM04\<close>, and is refused by both.
\<close>

theorem C5_member_of_running_game_is_refused:
  "list_ex (\<lambda>q. id_p q = ''p-ann'') (players exRoom)
   \<and> addPlayerToRoom [''ROOM01'' \<mapsto> exRoom] ''ROOM01'' (newPlayer ''p-ann'' ''Ann'')
       = ([''ROOM01'' \<mapsto> exRoom], Inl ''Game already in progress'')
   \<and> list_ex (\<lambda>q. id_p q = ''p-ann'') (players exFull)
   \<and> addPlayerToRoom [''ROOM04'' \<mapsto> exFull] ''ROOM04'' (newPlayer ''p-ann'' ''Ann'')
       = ([''ROOM04'' \<mapsto> exFull], Inl ''Room is full'')"
  by (simp add: addPlayerToRoom_def exRoom_def exFull_def exPlayers_def newPlayer_def)

lemma roomOk_add:
  assumes ok: "roomOk r" and call: "addPlayerToRoom rs c p = (rs', res)"
    and r: "rs c = Some r" and r': "rs' c = Some r'"
  shows "roomOk r'"
proof -
  from call r r' have "r' = r
      \<or> (\<not> list_ex (\<lambda>q. id_p q = id_p p) (players r)
          \<and> r' = r\<lparr>players := players r @ [p],
                    hostId := (if players r = [] then Some (id_p p) else hostId r)\<rparr>)"
    by (auto simp: addPlayerToRoom_def Let_def split: if_splits)
  then show ?thesis
  proof
    assume "r' = r"
    with ok show ?thesis by simp
  next
    assume "\<not> list_ex (\<lambda>q. id_p q = id_p p) (players r)
          \<and> r' = r\<lparr>players := players r @ [p],
                    hostId := (if players r = [] then Some (id_p p) else hostId r)\<rparr>"
    with ok show ?thesis
      by (cases "players r") (auto simp: roomOk_def list_ex_iff)
  qed
qed

lemma roomOk_remove:
  assumes ok: "roomOk r" and call: "removePlayerFromRoom rs c pid = (rs', res)"
    and r: "rs c = Some r" and r': "rs' c = Some r'"
  shows "roomOk r'"
proof -
  let ?ps = "filter (\<lambda>p. id_p p \<noteq> pid) (players r)"
  from call r r' have ne: "?ps \<noteq> []"
    and eq: "r' = r\<lparr>players := ?ps,
                    hostId := (if hostId r = Some pid then Some (id_p (hd ?ps))
                               else hostId r)\<rparr>"
    by (auto simp: removePlayerFromRoom_def Let_def hd_conv_nth split: if_splits)
  from ne obtain h rest where ps: "players r = h # rest"
    by (cases "players r") auto
  from ok have d: "distinct (map id_p ?ps)"
    by (simp add: roomOk_def distinct_map_filter)
  from ne obtain x xs where f: "?ps = x # xs"
    by (cases ?ps) auto
  have "hostId r' = Some (id_p x)"
  proof (cases "hostId r = Some pid")
    case True
    with eq f show ?thesis by simp
  next
    case False
    with ok ps have "id_p h \<noteq> pid" by (auto simp: roomOk_def)
    with ps f have "x = h" by simp
    with False ok ps eq show ?thesis by (simp add: roomOk_def)
  qed
  with d eq f show ?thesis
    by (simp add: roomOk_def)
qed

lemma reachableRooms_ok:
  "reachableRooms rs \<Longrightarrow> rs c = Some r \<Longrightarrow> roomOk r"
proof (induction arbitrary: c r rule: reachableRooms.induct)
  case rr_init
  then show ?case by simp
next
  case (rr_create rs c' nm priv pw)
  then show ?case
    by (auto simp: createRoom_def Let_def roomOk_def split: if_splits)
next
  case (rr_add rs c' p)
  show ?case
  proof (cases "c = c'")
    case False
    with rr_add.prems have "rs c = Some r"
      by (auto simp: addPlayerToRoom_def Let_def split: option.splits if_splits)
    then show ?thesis by (rule rr_add.IH)
  next
    case True
    with rr_add.prems obtain r0 where r0: "rs c' = Some r0"
      by (cases "rs c'") (auto simp: addPlayerToRoom_def)
    from rr_add.IH[OF r0] have "roomOk r0" .
    then show ?thesis
      using roomOk_add[of r0 rs c' p "fst (addPlayerToRoom rs c' p)" "snd (addPlayerToRoom rs c' p)" r]
        r0 rr_add.prems True by simp
  qed
next
  case (rr_remove rs c' pid)
  show ?case
  proof (cases "c = c'")
    case False
    with rr_remove.prems have "rs c = Some r"
      by (auto simp: removePlayerFromRoom_def Let_def split: option.splits if_splits)
    then show ?thesis by (rule rr_remove.IH)
  next
    case True
    with rr_remove.prems obtain r0 where r0: "rs c' = Some r0"
      by (cases "rs c'") (auto simp: removePlayerFromRoom_def)
    from rr_remove.IH[OF r0] have "roomOk r0" .
    then show ?thesis
      using roomOk_remove[of r0 rs c' pid "fst (removePlayerFromRoom rs c' pid)"
          "snd (removePlayerFromRoom rs c' pid)" r]
        r0 rr_remove.prems True by simp
  qed
next
  case (rr_status rs c' st)
  show ?case
  proof (cases "rs c'")
    case None
    with rr_status show ?thesis by (simp add: updateRoomStatus_def)
  next
    case (Some r0)
    show ?thesis
    proof (cases "c = c'")
      case False
      with rr_status.prems Some have "rs c = Some r" by (simp add: updateRoomStatus_def)
      then show ?thesis by (rule rr_status.IH)
    next
      case True
      with rr_status.prems Some have "r = r0\<lparr>status := st\<rparr>" by (simp add: updateRoomStatus_def)
      moreover from rr_status.IH[OF Some] have "roomOk r0" .
      ultimately show ?thesis by (simp add: roomOk_def)
    qed
  qed
qed

lemma host_leaves_next_in_order:
  assumes "reachableRooms rs" and "rs c = Some r" and "hostId r = Some pid"
    and "players r = h # n # rest"
  shows "map_option hostId (fst (removePlayerFromRoom rs c pid) c) = Some (Some (id_p n))"
proof -
  from reachableRooms_ok[OF assms(1,2)] have ok: "roomOk r" .
  with assms(3,4) have "id_p h = pid" "id_p n \<noteq> pid"
    by (auto simp: roomOk_def)
  with assms(2,3,4) show ?thesis
    by (simp add: removePlayerFromRoom_def Let_def)
qed

text \<open>
  C8. \<open>removePlayerFromRoom\<close> keeps exactly the members whose id differs from the given
  one. If nobody is left, the room is deleted from the registry and \<open>deleted = true\<close> is
  answered, and the \<open>leave-room\<close> handler then deletes the room's game state as well. If
  members are left and the leaver was the host, the first remaining member becomes host;
  in every registry the server can reach the host is the first member, so the new host is
  the member that came next in list order.
\<close>

theorem C8_removePlayer:
  assumes "rs c = Some r"
  shows "removePlayerFromRoom rs c pid
       = (if filter (\<lambda>p. id_p p \<noteq> pid) (players r) = []
          then (rs(c := None), Removed None True)
          else (rs(c \<mapsto> r\<lparr>players := filter (\<lambda>p. id_p p \<noteq> pid) (players r),
                             hostId := (if hostId r = Some pid
                                        then Some (id_p (hd (filter (\<lambda>p. id_p p \<noteq> pid) (players r))))
                                        else hostId r)\<rparr>),
                Removed (Some (r\<lparr>players := filter (\<lambda>p. id_p p \<noteq> pid) (players r),
                             hostId := (if hostId r = Some pid
                                        then Some (id_p (hd (filter (\<lambda>p. id_p p \<noteq> pid) (players r))))
                                        else hostId r)\<rparr>)) False))
     \<and> (rooms srv = rs \<and> socketToRoom srv sock = Some c \<and> socketToPlayer srv sock = Some pid
          \<and> c \<noteq> [] \<and> pid \<noteq> [] \<longrightarrow>
          rooms (leaveRoom srv sock) = fst (removePlayerFromRoom rs c pid)
          \<and> gameStates (leaveRoom srv sock)
              = (if filter (\<lambda>p. id_p p \<noteq> pid) (players r) = []
                 then (gameStates srv)(c := None) else gameStates srv))
     \<and> (reachableRooms rs \<and> hostId r = Some pid \<and> players r = h # n # rest \<longrightarrow>
          map_option hostId (fst (removePlayerFromRoom rs c pid) c) = Some (Some (id_p n)))"
proof (intro conjI impI)
  show "removePlayerFromRoom rs c pid
       = (if filter (\<lambda>p. id_p p \<noteq> pid) (players r) = []
          then (rs(c := None), Removed None True)
          else (rs(c \<mapsto> r\<lparr>players := filter (\<lambda>p. id_p p \<noteq> pid) (players r),
                             hostId := (if hostId r = Some pid
                                        then Some (id_p (hd (filter (\<lambda>p. id_p p \<noteq> pid) (players r))))
                                        else hostId r)\<rparr>),
                Removed (Some (r\<lparr>players := filter (\<lambda>p. id_p p \<noteq> pid) (players r),
                             hostId := (if hostId r = Some pid
                                        then Some (id_p (hd (filter (\<lambda>p. id_p p \<noteq> pid) (players r))))
                                        else hostId r)\<rparr>)) False))"
    using assms by (auto simp: removePlayerFromRoom_def Let_def hd_conv_nth)
next
  assume a: "rooms srv = rs \<and> socketToRoom srv sock = Some c \<and> socketToPlayer srv sock = Some pid
          \<and> c \<noteq> [] \<and> pid \<noteq> []"
  with assms show "rooms (leaveRoom srv sock) = fst (removePlayerFromRoom rs c pid)"
    by (auto simp: removePlayerFromRoom_def leaveRoom_def deleteGameState_def Let_def)
  from a assms show "gameStates (leaveRoom srv sock)
              = (if filter (\<lambda>p. id_p p \<noteq> pid) (players r) = []
                 then (gameStates srv)(c := None) else gameStates srv)"
    by (auto simp: removePlayerFromRoom_def leaveRoom_def deleteGameState_def Let_def)
next
  assume "reachableRooms rs \<and> hostId r = Some pid \<and> players r = h # n # rest"
  with assms show "map_option hostId (fst (removePlayerFromRoom rs c pid) c) = Some (Some (id_p n))"
    by (simp add: host_leaves_next_in_order)
qed

theorem C8_removePlayer_witness:
  "removePlayerFromRoom [''ROOM03'' \<mapsto> exLobby] ''ROOM03'' ''p-ann''
       = (Map.empty, Removed None True)
   \<and> rooms (leaveRoom exSolo ''s-ann'') = Map.empty
   \<and> gameStates (leaveRoom exSolo ''s-ann'') = Map.empty
   \<and> reachableRooms exBuilt
   \<and> map_option hostId (exBuilt ''ROOM06'') = Some (Some ''p-ann'')
   \<and> map_option hostId (fst (removePlayerFromRoom exBuilt ''ROOM06'' ''p-ann'') ''ROOM06'')
       = Some (Some ''p-bob'')
   \<and> map_option (map id_p \<circ> players)
        (fst (removePlayerFromRoom exBuilt ''ROOM06'' ''p-ann'') ''ROOM06'')
       = Some [''p-bob'', ''p-cy'']"
proof -
  have lob: "[''ROOM03'' \<mapsto> exLobby] ''ROOM03'' = Some exLobby" by simp
  have emp: "filter (\<lambda>p. id_p p \<noteq> ''p-ann'') (players exLobby) = []"
    by (simp add: exLobby_def exRoom_def exPlayers_def newPlayer_def)
  note solo = C8_removePlayer[where rs="[''ROOM03'' \<mapsto> exLobby]" and c="''ROOM03''"
      and r=exLobby and pid="''p-ann''" and srv=exSolo and sock="''s-ann''", OF lob]
  from solo[THEN conjunct1] emp
  have 1: "removePlayerFromRoom [''ROOM03'' \<mapsto> exLobby] ''ROOM03'' ''p-ann''
       = (Map.empty, Removed None True)"
    by simp
  from solo[THEN conjunct2, THEN conjunct1] emp 1
  have 2: "rooms (leaveRoom exSolo ''s-ann'') = Map.empty"
    and 3: "gameStates (leaveRoom exSolo ''s-ann'') = Map.empty"
    by (simp_all add: exSolo_def)
  let ?trio = "\<lparr>id_r = ''ROOM06'', name_r = ''Trio'', isPrivate = False, password = None,
      hostId = Some ''p-ann'',
      players = [newPlayer ''p-ann'' ''Ann'', newPlayer ''p-bob'' ''Bob'',
                 newPlayer ''p-cy'' ''Cy''],
      maxPlayers = 8, status = WAITING\<rparr>"
  have built: "exBuilt = [''ROOM06'' \<mapsto> ?trio]"
    by (simp add: exBuilt_def createRoom_def addPlayerToRoom_def newPlayer_def Let_def)
  have reach: "reachableRooms exBuilt"
    unfolding exBuilt_def by (intro reachableRooms.intros)
  have rm: "exBuilt ''ROOM06'' = Some ?trio"
    by (simp add: built)
  note trio = C8_removePlayer[where rs=exBuilt and c="''ROOM06''" and r="?trio"
      and pid="''p-ann''" and h="newPlayer ''p-ann'' ''Ann''"
      and n="newPlayer ''p-bob'' ''Bob''" and rest="[newPlayer ''p-cy'' ''Cy'']", OF rm]
  have 4: "map_option hostId (exBuilt ''ROOM06'') = Some (Some ''p-ann'')"
    by (simp add: built)
  from trio[THEN conjunct2, THEN conjunct2] reach
  have host: "map_option hostId (fst (removePlayerFromRoom exBuilt ''ROOM06'' ''p-ann'') ''ROOM06'')
      = Some (Some ''p-bob'')"
    by (simp add: newPlayer_def)
  from trio[THEN conjunct1]
  have after: "fst (removePlayerFromRoom exBuilt ''ROOM06'' ''p-ann'')
      = exBuilt(''ROOM06'' \<mapsto> ?trio\<lparr>players := [newPlayer ''p-bob'' ''Bob'',
                                                    newPlayer ''p-cy'' ''Cy''],
                                        hostId := Some ''p-bob''\<rparr>)"
    by (simp add: newPlayer_def)
  from after have 6: "map_option (map id_p \<circ> players)
        (fst (removePlayerFromRoom exBuilt ''ROOM06'' ''p-ann'') ''ROOM06'')
       = Some [''p-bob'', ''p-cy'']"
    by (simp add: newPlayer_def)
  from 1 2 3 reach 4 host 6 show ?thesis by blast
qed

section \<open>Word masking\<close>

lemma length_joinSpace: "length (joinSpace xs) = 2 * length xs - 1"
  by (induction xs rule: joinSpace.induct) auto

lemma joinSpace_even: "i < length xs \<Longrightarrow> joinSpace xs ! (2 * i) = xs ! i"
proof (induction xs arbitrary: i rule: joinSpace.induct)
  case 1
  then show ?case by simp
next
  case (2 ch)
  then show ?case by simp
next
  case (3 ch v va)
  show ?case
  proof (cases i)
    case 0
    then show ?thesis by simp
  next
    case (Suc k)
    with 3 show ?thesis by simp
  qed
qed

lemma joinSpace_odd: "Suc i < length xs \<Longrightarrow> joinSpace xs ! (2 * i + 1) = CHR '' ''"
proof (induction xs arbitrary: i rule: joinSpace.induct)
  case 1
  then show ?case by simp
next
  case (2 ch)
  then show ?case by simp
next
  case (3 ch v va)
  show ?case
  proof (cases i)
    case 0
    then show ?thesis by simp
  next
    case (Suc k)
    with 3 show ?thesis by simp
  qed
qed

text \<open>
  C7 (as the code has it). \<open>getMaskedWord\<close> computes a string from the word and the
  remaining time and changes nothing. With \<open>elapsed = 80 - timeLeft\<close>, position \<open>i\<close> of the
  word is displayed as the word's own character when that character is not alphanumeric,
  or when \<open>i = 0\<close> and \<open>elapsed \<ge> 30\<close>, or when \<open>i = length div 2\<close>, \<open>elapsed \<ge> 60\<close> and the
  length is at least 4; every other position is displayed as the placeholder \<open>_\<close>. So
  nothing alphanumeric is revealed before 30 seconds, from 30 seconds on the character at
  index 0 is revealed (the first alphanumeric character when the word starts with one),
  and from 60 seconds on the middle character as well, for words of four or more
  characters. The displayed characters are separated by single spaces.
\<close>

theorem C7_masking_by_index:
  "(i < length w \<longrightarrow>
      maskedChar state w i
        = (if \<not> isAlnum (w ! i)
              \<or> (i = 0 \<and> 30 \<le> 80 - timeLeft state)
              \<or> (i = length w div 2 \<and> 60 \<le> 80 - timeLeft state \<and> 4 \<le> length w)
           then w ! i else CHR ''_''))
   \<and> length (getMaskedWord (Some state) w) = 2 * length w - 1
   \<and> (Suc i < length w \<longrightarrow> getMaskedWord (Some state) w ! (2 * i + 1) = CHR '' '')
   \<and> getMaskedWord None w = []"
proof (intro conjI impI)
  assume i: "i < length w"
  then have ne: "w \<noteq> []" by auto
  show "maskedChar state w i
        = (if \<not> isAlnum (w ! i)
              \<or> (i = 0 \<and> 30 \<le> 80 - timeLeft state)
              \<or> (i = length w div 2 \<and> 60 \<le> 80 - timeLeft state \<and> 4 \<le> length w)
           then w ! i else CHR ''_'')"
    using i ne
    by (auto simp: maskedChar_def getMaskedWord_def Let_def TURN_DURATION_SECONDS_def
        joinSpace_even nth_enumerate_eq)
next
  show "length (getMaskedWord (Some state) w) = 2 * length w - 1"
    by (simp add: getMaskedWord_def Let_def length_joinSpace)
next
  assume "Suc i < length w"
  then show "getMaskedWord (Some state) w ! (2 * i + 1) = CHR '' ''"
    by (auto simp: getMaskedWord_def Let_def joinSpace_odd simp del: One_nat_def)
next
  show "getMaskedWord None w = []"
    by (simp add: getMaskedWord_def)
qed


theorem C7_masking_by_index_witness:
  "map (maskedChar (exState\<lparr>timeLeft := 80\<rparr>) ''Moon'') [0, 1, 2, 3] = ''____''
   \<and> map (maskedChar (exState\<lparr>timeLeft := 50\<rparr>) ''Moon'') [0, 1, 2, 3] = ''M___''
   \<and> map (maskedChar (exState\<lparr>timeLeft := 20\<rparr>) ''Moon'') [0, 1, 2, 3] = ''M_o_''
   \<and> map (maskedChar (exState\<lparr>timeLeft := 20\<rparr>) ''Sun'') [0, 1, 2] = ''S__''
   \<and> map (maskedChar (exState\<lparr>timeLeft := 80\<rparr>) ''a-b'') [0, 1, 2] = ''_-_''
   \<and> getMaskedWord (Some (exState\<lparr>timeLeft := 20\<rparr>)) ''Moon'' ! 1 = CHR '' ''
   \<and> length (getMaskedWord (Some (exState\<lparr>timeLeft := 20\<rparr>)) ''Moon'') = 7"
proof -
  note m80 = C7_masking_by_index[of _ "''Moon''" "exState\<lparr>timeLeft := 80\<rparr>", THEN conjunct1]
  note m50 = C7_masking_by_index[of _ "''Moon''" "exState\<lparr>timeLeft := 50\<rparr>", THEN conjunct1]
  note m20 = C7_masking_by_index[of _ "''Moon''" "exState\<lparr>timeLeft := 20\<rparr>", THEN conjunct1]
  note s20 = C7_masking_by_index[of _ "''Sun''" "exState\<lparr>timeLeft := 20\<rparr>", THEN conjunct1]
  note d80 = C7_masking_by_index[of _ "''a-b''" "exState\<lparr>timeLeft := 80\<rparr>", THEN conjunct1]
  note rest = C7_masking_by_index[of 0 "''Moon''" "exState\<lparr>timeLeft := 20\<rparr>",
      THEN conjunct2]
  have 1: "map (maskedChar (exState\<lparr>timeLeft := 80\<rparr>) ''Moon'') [0, 1, 2, 3] = ''____''"
    using m80[of 0] m80[of 1] m80[of 2] m80[of 3] by (simp add: isAlnum_def)
  have 2: "map (maskedChar (exState\<lparr>timeLeft := 50\<rparr>) ''Moon'') [0, 1, 2, 3] = ''M___''"
    using m50[of 0] m50[of 1] m50[of 2] m50[of 3] by (simp add: isAlnum_def)
  have 3: "map (maskedChar (exState\<lparr>timeLeft := 20\<rparr>) ''Moon'') [0, 1, 2, 3] = ''M_o_''"
    using m20[of 0] m20[of 1] m20[of 2] m20[of 3] by (simp add: isAlnum_def)
  have 4: "map (maskedChar (exState\<lparr>timeLeft := 20\<rparr>) ''Sun'') [0, 1, 2] = ''S__''"
    using s20[of 0] s20[of 1] s20[of 2] by (simp add: isAlnum_def)
  have 5: "map (maskedChar (exState\<lparr>timeLeft := 80\<rparr>) ''a-b'') [0, 1, 2] = ''_-_''"
    using d80[of 0] d80[of 1] d80[of 2] by (simp add: isAlnum_def)
  from rest have 6: "getMaskedWord (Some (exState\<lparr>timeLeft := 20\<rparr>)) ''Moon'' ! 1 = CHR '' ''"
    and 7: "length (getMaskedWord (Some (exState\<lparr>timeLeft := 20\<rparr>)) ''Moon'') = 7"
    by simp_all
  from 1 2 3 4 5 6 7 show ?thesis by blast
qed

text \<open>
  C7 in the specification's wording fails: it has the first alphanumeric character
  revealed at 30 seconds. After exactly 30 seconds (\<open>timeLeft = 50\<close>) the word \<open>#1 Dad\<close>, whose first
  alphanumeric character is the \<open>1\<close> at index 1, is displayed with no alphanumeric
  character revealed.
\<close>

theorem C7_first_alnum_not_revealed:
  "TURN_DURATION_SECONDS - timeLeft (exState\<lparr>timeLeft := 50\<rparr>) = 30
   \<and> \<not> isAlnum (''#1 Dad'' ! 0) \<and> isAlnum (''#1 Dad'' ! 1)
   \<and> maskedChar (exState\<lparr>timeLeft := 50\<rparr>) ''#1 Dad'' 1 = CHR ''_''
   \<and> getMaskedWord (Some (exState\<lparr>timeLeft := 50\<rparr>)) ''#1 Dad'' = ''# _   _ _ _''"
  by (simp add: maskedChar_def getMaskedWord_def exState_def TURN_DURATION_SECONDS_def
        isAlnum_def enumerate_eq_zip upt_rec)

section \<open>Guess evaluation\<close>

lemma length_letters: "length upperLetters = length lowerLetters"
  by (simp add: upperLetters_def lowerLetters_def)

lemma toLowerChar_cases:
  "(ch \<notin> set upperLetters \<and> toLowerChar ch = ch)
   \<or> (ch \<in> set upperLetters \<and> toLowerChar ch \<in> set lowerLetters)"
proof (cases "map_of (zip upperLetters lowerLetters) ch")
  case None
  moreover have "fst ` set (zip upperLetters lowerLetters) = set upperLetters"
    using length_letters by (metis map_fst_zip set_map)
  ultimately have "ch \<notin> set upperLetters"
    by (simp add: map_of_eq_None_iff)
  with None show ?thesis by (simp add: toLowerChar_def)
next
  case (Some l)
  then have "(ch, l) \<in> set (zip upperLetters lowerLetters)"
    by (rule map_of_SomeD)
  then have "ch \<in> set upperLetters" "l \<in> set lowerLetters"
    by (auto dest: set_zip_leftD set_zip_rightD)
  with Some show ?thesis by (simp add: toLowerChar_def)
qed

lemma letters_not_space:
  "ch \<in> set upperLetters \<union> set lowerLetters \<Longrightarrow> \<not> isWhiteSpace ch"
  by (auto simp: upperLetters_def lowerLetters_def isWhiteSpace_def)

lemma lower_not_upper: "ch \<in> set lowerLetters \<Longrightarrow> ch \<notin> set upperLetters"
  by (auto simp: upperLetters_def lowerLetters_def)

lemma isWhiteSpace_toLowerChar [simp]: "isWhiteSpace (toLowerChar ch) = isWhiteSpace ch"
  using toLowerChar_cases[of ch] letters_not_space[of ch] letters_not_space[of "toLowerChar ch"]
  by auto

lemma toLowerChar_idem [simp]: "toLowerChar (toLowerChar ch) = toLowerChar ch"
  using toLowerChar_cases[of ch] toLowerChar_cases[of "toLowerChar ch"]
    lower_not_upper[of "toLowerChar ch"]
  by auto

lemma trim_pad:
  assumes l: "list_all isWhiteSpace l" and r: "list_all isWhiteSpace r"
  shows "trim (l @ s @ r) = trim s"
proof -
  have dl: "dropWhile isWhiteSpace (l @ s @ r) = dropWhile isWhiteSpace (s @ r)"
    using l by (simp add: dropWhile_append2 list_all_iff)
  show ?thesis
  proof (cases "list_all isWhiteSpace s")
    case True
    with l r have e: "dropWhile isWhiteSpace (l @ s @ r) = []" "dropWhile isWhiteSpace s = []"
      by (auto simp: list_all_iff dropWhile_eq_Nil_conv)
    show ?thesis by (simp only: trim_def e)
  next
    case False
    then obtain x where x: "x \<in> set s" "\<not> isWhiteSpace x"
      by (auto simp: list_all_iff)
    then have "dropWhile isWhiteSpace (s @ r) = dropWhile isWhiteSpace s @ r"
      by (rule dropWhile_append1)
    moreover have "dropWhile isWhiteSpace (rev r @ rev (dropWhile isWhiteSpace s))
        = dropWhile isWhiteSpace (rev (dropWhile isWhiteSpace s))"
      by (rule dropWhile_append2) (use r in \<open>auto simp: list_all_iff\<close>)
    ultimately show ?thesis
      using dl by (simp add: trim_def)
  qed
qed

lemma trim_toLowerCase: "trim (toLowerCase s) = toLowerCase (trim s)"
  by (simp add: trim_def toLowerCase_def dropWhile_map rev_map comp_def)


text \<open>
  C4. For every guess text and every current word (strings of code units below 256),
  \<open>checkGuess\<close> answers true exactly when the guess, trimmed and lower-cased, equals the
  current word lower-cased. Hence white space added before or after a guess, the no-break
  space included, never changes the answer, and neither does changing the case of its
  letters, accented ones included; \<open>"  Cat "\<close> is a correct guess for the word \<open>Cat\<close>.
\<close>

theorem C4_checkGuess_normalised_equality:
  assumes "games c = Some st" and "currentWord st = Some w"
  shows "(checkGuess games c guess \<longleftrightarrow> toLowerCase (trim guess) = toLowerCase (word w))
     \<and> (list_all isWhiteSpace l \<and> list_all isWhiteSpace r \<longrightarrow>
          checkGuess games c (l @ guess @ r) = checkGuess games c guess)
     \<and> (toLowerCase guess' = toLowerCase guess \<longrightarrow>
          checkGuess games c guess' = checkGuess games c guess)"
proof -
  have eq: "\<And>g. checkGuess games c g \<longleftrightarrow> toLowerCase (trim g) = toLowerCase (word w)"
    using assms by (simp add: checkGuess_def)
  have "toLowerCase guess' = toLowerCase guess \<Longrightarrow>
          toLowerCase (trim guess') = toLowerCase (trim guess)"
    by (simp flip: trim_toLowerCase)
  then show ?thesis
    by (auto simp: eq trim_pad)
qed

theorem C4_checkGuess_normalised_equality_witness:
  "checkGuess exGames ''ROOM01'' ''  Cat ''
   \<and> checkGuess exGames ''ROOM01'' ''cAT''
   \<and> checkGuess exGames ''ROOM01'' (CHR 0xA0 # ''Cat'')
   \<and> \<not> checkGuess exGames ''ROOM01'' ''Cats''
   \<and> \<not> checkGuess exGames ''ROOM01'' ''C at''
   \<and> checkGuess [''ROOM07'' \<mapsto> exState\<lparr>currentWord :=
                       Some \<lparr>word = ''Caf'' @ [CHR 0xE9], category = PLACE\<rparr>\<rparr>]
         ''ROOM07'' (''CAF'' @ [CHR 0xC9])"
proof -
  have g: "exGames ''ROOM01'' = Some exState"
    by (simp add: exGames_def)
  have w: "currentWord exState = Some \<lparr>word = ''Cat'', category = THING\<rparr>"
    by (simp add: exState_def)
  note inst = C4_checkGuess_normalised_equality[where games=exGames and c="''ROOM01''", OF g w]
  have cat: "checkGuess exGames ''ROOM01'' ''Cat''"
    using inst[of "''Cat''", THEN conjunct1]
    by (simp add: trim_def isWhiteSpace_def toLowerCase_def toLowerChar_def
          upperLetters_def lowerLetters_def)
  have 1: "checkGuess exGames ''ROOM01'' ''  Cat ''"
    using inst[of "''Cat''" "''  ''" "'' ''", THEN conjunct2, THEN conjunct1] cat
    by (simp add: isWhiteSpace_def)
  have 2: "checkGuess exGames ''ROOM01'' ''cAT''"
    using inst[of "''Cat''" _ _ "''cAT''", THEN conjunct2, THEN conjunct2] cat
    by (simp add: toLowerCase_def toLowerChar_def upperLetters_def lowerLetters_def)
  have 3: "checkGuess exGames ''ROOM01'' (CHR 0xA0 # ''Cat'')"
    using inst[of "''Cat''" "[CHR 0xA0]" "[]", THEN conjunct2, THEN conjunct1] cat
    by (simp add: isWhiteSpace_def)
  have 4: "\<not> checkGuess exGames ''ROOM01'' ''Cats''"
    using inst[of "''Cats''", THEN conjunct1]
    by (simp add: trim_def isWhiteSpace_def toLowerCase_def toLowerChar_def
          upperLetters_def lowerLetters_def)
  have 5: "\<not> checkGuess exGames ''ROOM01'' ''C at''"
    using inst[of "''C at''", THEN conjunct1]
    by (simp add: trim_def isWhiteSpace_def toLowerCase_def toLowerChar_def
          upperLetters_def lowerLetters_def)
  let ?cafe = "exState\<lparr>currentWord := Some \<lparr>word = ''Caf'' @ [CHR 0xE9], category = PLACE\<rparr>\<rparr>"
  have g7: "[''ROOM07'' \<mapsto> ?cafe] ''ROOM07'' = Some ?cafe"
    by simp
  have w7: "currentWord ?cafe = Some \<lparr>word = ''Caf'' @ [CHR 0xE9], category = PLACE\<rparr>"
    by simp
  have 6: "checkGuess [''ROOM07'' \<mapsto> ?cafe] ''ROOM07'' (''CAF'' @ [CHR 0xC9])"
    using C4_checkGuess_normalised_equality[where games="[''ROOM07'' \<mapsto> ?cafe]"
        and c="''ROOM07''" and guess="''CAF'' @ [CHR 0xC9]", OF g7 w7, THEN conjunct1]
    by (simp add: trim_def isWhiteSpace_def toLowerCase_def toLowerChar_def
          upperLetters_def lowerLetters_def)
  from 1 2 3 4 5 6 show ?thesis by blast
qed

section \<open>The word candidates\<close>

lemma filter_category_wordsOf:
  "filter (\<lambda>w. category w = c) (wordsOf c' ws) = (if c = c' then wordsOf c' ws else [])"
  by (induction ws) (auto simp: wordsOf_def)

lemma nth_wordsOf: "i < length ws \<Longrightarrow> wordsOf c ws ! i = \<lparr>word = ws ! i, category = c\<rparr>"
  by (simp add: wordsOf_def)

lemma wordsOf_eq_Nil [simp]: "wordsOf c ws = [] \<longleftrightarrow> ws = []"
  by (simp add: wordsOf_def)

lemma length_wordsOf [simp]: "length (wordsOf c ws) = length ws"
  by (simp add: wordsOf_def)

lemma selectWordOptions_hard_example:
  "selectWordOptions 3 [] [0, 7, 2]
     = Some [\<lparr>word = ''Photography'', category = ACTION\<rparr>,
             \<lparr>word = ''Waterfall'', category = THING\<rparr>,
             \<lparr>word = ''Waterfall'', category = PLACE\<rparr>]"
proof -
  have ac: "filter (\<lambda>w. category w = ACTION) HARD_WORDS
      = wordsOf ACTION [''Photography'', ''Meditation'', ''Exercising'', ''Gardening'',
                       ''Exploring'', ''Inventing'', ''Discovering'', ''Celebrating'',
                       ''Traveling'', ''Learning'']"
    and th: "filter (\<lambda>w. category w = THING) HARD_WORDS
      = wordsOf THING [''Telescope'', ''Microscope'', ''Helicopter'', ''Submarine'',
                    ''Skyscraper'', ''Lighthouse'', ''Windmill'', ''Waterfall'', ''Rainbow'',
                    ''Thunderstorm'']"
    and pl: "filter (\<lambda>w. category w = PLACE) HARD_WORDS
      = wordsOf PLACE [''Pyramid'', ''Rainforest'', ''Waterfall'', ''Volcano'', ''Glacier'',
                      ''Canyon'', ''Observatory'', ''Laboratory'', ''Observatory'',
                      ''Planetarium'']"
    by (simp_all add: HARD_WORDS_def filter_category_wordsOf)
  have ne: "HARD_WORDS \<noteq> []"
    by (simp add: HARD_WORDS_def wordsOf_def)
  show ?thesis
    by (simp add: selectWordOptions_def pickInto_def ac th pl nth_wordsOf ne Let_def)
qed

text \<open>
  C6 (not met by the code). The specification's invariant is that the candidates offered
  to a drawer are pairwise distinct words with every available category represented.
  \<open>HARD_WORDS\<close> lists \<open>Waterfall\<close> both as a THING and as a PLACE, and the three category
  picks are not compared with each other (only the fill loop compares words). In round 3,
  with nothing excluded, the draws 0, 7, 2 select \<open>Photography\<close>, \<open>Waterfall\<close> (THING) and
  \<open>Waterfall\<close> (PLACE): the drawer is offered the same word twice.
\<close>

theorem C6_duplicate_word_offered:
  "selectWordOptions 3 [] [0, 7, 2]
     = Some [\<lparr>word = ''Photography'', category = ACTION\<rparr>,
             \<lparr>word = ''Waterfall'', category = THING\<rparr>,
             \<lparr>word = ''Waterfall'', category = PLACE\<rparr>]
   \<and> generateWordOptions 3 [] [0, 7, 2]
        [\<lparr>word = ''Waterfall'', category = PLACE\<rparr>,
         \<lparr>word = ''Photography'', category = ACTION\<rparr>,
         \<lparr>word = ''Waterfall'', category = THING\<rparr>]
   \<and> \<not> distinct (map word
        [\<lparr>word = ''Waterfall'', category = PLACE\<rparr>,
         \<lparr>word = ''Photography'', category = ACTION\<rparr>,
         \<lparr>word = ''Waterfall'', category = THING\<rparr>])"
  by (simp add: generateWordOptions_def selectWordOptions_hard_example)

text \<open>Whatever order the final shuffle produces, these candidates repeat a word.\<close>

lemma generateWordOptions_duplicate_in_every_order:
  assumes "generateWordOptions 3 [] [0, 7, 2] out"
  shows "\<not> distinct (map word out)"
proof -
  from assms have "mset out = mset [\<lparr>word = ''Photography'', category = ACTION\<rparr>,
             \<lparr>word = ''Waterfall'', category = THING\<rparr>,
             \<lparr>word = ''Waterfall'', category = PLACE\<rparr>]"
    by (simp add: generateWordOptions_def selectWordOptions_hard_example)
  then have "mset (map word out) = mset (map word [\<lparr>word = ''Photography'', category = ACTION\<rparr>,
             \<lparr>word = ''Waterfall'', category = THING\<rparr>,
             \<lparr>word = ''Waterfall'', category = PLACE\<rparr>])"
    by simp
  then have "distinct (map word out) \<longleftrightarrow> distinct (map word [\<lparr>word = ''Photography'', category = ACTION\<rparr>,
             \<lparr>word = ''Waterfall'', category = THING\<rparr>,
             \<lparr>word = ''Waterfall'', category = PLACE\<rparr>])"
    by (rule mset_eq_imp_distinct_iff)
  then show ?thesis by simp
qed

text \<open>
  The other half of the invariant holds: whenever \<open>generateWordOptions\<close> returns, every
  category that still has a word in the pool after the exclusions is represented.
\<close>

lemma pickInto_Some:
  assumes "pickInto cands (selected, rnd) = Some (selected', rnd')"
  shows "(cands = [] \<and> selected' = selected)
       \<or> (\<exists>x\<in>set cands. selected' = selected @ [x])"
  using assms
  by (auto simp: pickInto_def split: if_splits list.splits)

lemma fillFromPool_extends:
  "fillFromPool selected av rnd = Some res \<Longrightarrow> \<exists>ext. res = selected @ ext"
proof (induction rnd arbitrary: selected)
  case Nil
  then show ?case
    by (auto split: if_splits)
next
  case (Cons r rnd)
  show ?case
  proof (cases "length selected < 3 \<and> av \<noteq> []")
    case False
    with Cons.prems show ?thesis by auto
  next
    case True
    let ?w = "av ! (r mod length av)"
    show ?thesis
    proof (cases "list_ex (\<lambda>w. word w = word ?w) selected")
      case dup: True
      with True Cons.prems have "fillFromPool selected av rnd = Some res"
        by (simp add: Let_def)
      then show ?thesis by (rule Cons.IH)
    next
      case fresh: False
      with True Cons.prems have "fillFromPool (selected @ [?w]) av rnd = Some res"
        by (simp add: Let_def)
      from Cons.IH[OF this] show ?thesis by auto
    qed
  qed
qed

lemma selectWordOptions_covers:
  assumes sel: "selectWordOptions round excludeWords rnd = Some selected"
    and w: "w \<in> set (if round = 1 then EASY_WORDS
                     else if round = 2 then MEDIUM_WORDS else HARD_WORDS)"
           "word w \<notin> set excludeWords"
  shows "\<exists>v\<in>set selected. category v = category w"
proof -
  define av where "av = filter (\<lambda>w. word w \<notin> set excludeWords)
      (if round = 1 then EASY_WORDS else if round = 2 then MEDIUM_WORDS else HARD_WORDS)"
  define ac where "ac = filter (\<lambda>w. category w = ACTION) av"
  define th where "th = filter (\<lambda>w. category w = THING) av"
  define pl where "pl = filter (\<lambda>w. category w = PLACE) av"
  from sel obtain s1 r1 s2 r2 s3 r3 res where
    p1: "pickInto ac ([], rnd) = Some (s1, r1)" and
    p2: "pickInto th (s1, r1) = Some (s2, r2)" and
    p3: "pickInto pl (s2, r2) = Some (s3, r3)" and
    fl: "fillFromPool s3 av r3 = Some res" and
    tk: "selected = take 3 res"
    unfolding selectWordOptions_def Let_def av_def[symmetric] ac_def[symmetric]
      th_def[symmetric] pl_def[symmetric]
    by (auto split: option.splits)
  from fillFromPool_extends[OF fl] obtain ext where res: "res = s3 @ ext" by blast
  note a = pickInto_Some[OF p1] and b = pickInto_Some[OF p2] and c = pickInto_Some[OF p3]
  from a b c have len: "length s3 \<le> 3" by auto
  with res tk have sub: "set s3 \<subseteq> set selected" by simp
  from w have wav: "w \<in> set av" by (simp add: av_def)
  have "\<exists>v\<in>set s3. category v = category w"
  proof (cases "category w")
    case ACTION
    with wav have "ac \<noteq> []" by (auto simp: ac_def filter_empty_conv)
    with a obtain x where "x \<in> set ac" "s1 = [x]" by auto
    moreover from this have "category x = ACTION" by (simp add: ac_def)
    ultimately show ?thesis using b c ACTION by auto
  next
    case THING
    with wav have "th \<noteq> []" by (auto simp: th_def filter_empty_conv)
    with b obtain x where "x \<in> set th" "s2 = s1 @ [x]" by auto
    moreover from this have "category x = THING" by (simp add: th_def)
    ultimately show ?thesis using c THING by auto
  next
    case PLACE
    with wav have "pl \<noteq> []" by (auto simp: pl_def filter_empty_conv)
    with c obtain x where "x \<in> set pl" "s3 = s2 @ [x]" by auto
    moreover from this have "category x = PLACE" by (simp add: pl_def)
    ultimately show ?thesis using PLACE by auto
  qed
  with sub show ?thesis by auto
qed

lemma generateWordOptions_covers:
  assumes "generateWordOptions round excludeWords rnd out"
    and "w \<in> set (if round = 1 then EASY_WORDS
                     else if round = 2 then MEDIUM_WORDS else HARD_WORDS)"
           "word w \<notin> set excludeWords"
  shows "\<exists>v\<in>set out. category v = category w"
proof -
  from assms(1) obtain selected where s: "selectWordOptions round excludeWords rnd = Some selected"
    and m: "mset out = mset selected"
    by (auto simp: generateWordOptions_def split: option.splits)
  from m have "set out = set selected" by (rule mset_eq_setD)
  with selectWordOptions_covers[OF s assms(2,3)] show ?thesis by simp
qed

text \<open>
  And the words are pairwise distinct whenever the pool itself lists no word twice, which
  is the case for the pools of rounds 1 and 2.
\<close>

lemma fillFromPool_distinct:
  "fillFromPool selected av rnd = Some res \<Longrightarrow> distinct (map word selected)
     \<Longrightarrow> distinct (map word res)"
proof (induction rnd arbitrary: selected)
  case Nil
  then show ?case
    by (auto split: if_splits)
next
  case (Cons r rnd)
  show ?case
  proof (cases "length selected < 3 \<and> av \<noteq> []")
    case False
    with Cons.prems show ?thesis by auto
  next
    case True
    let ?w = "av ! (r mod length av)"
    show ?thesis
    proof (cases "list_ex (\<lambda>w. word w = word ?w) selected")
      case dup: True
      with True Cons.prems have "fillFromPool selected av rnd = Some res"
        by (simp add: Let_def)
      then show ?thesis using Cons.prems(2) by (rule Cons.IH)
    next
      case fresh: False
      with True Cons.prems have "fillFromPool (selected @ [?w]) av rnd = Some res"
        by (simp add: Let_def)
      moreover from fresh Cons.prems(2) have "distinct (map word (selected @ [?w]))"
        by (auto simp: list_ex_iff)
      ultimately show ?thesis by (rule Cons.IH)
    qed
  qed
qed

lemma selectWordOptions_distinct:
  assumes sel: "selectWordOptions round excludeWords rnd = Some selected"
    and pool: "distinct (map word (if round = 1 then EASY_WORDS
                     else if round = 2 then MEDIUM_WORDS else HARD_WORDS))"
  shows "distinct (map word selected)"
proof -
  define av where "av = filter (\<lambda>w. word w \<notin> set excludeWords)
      (if round = 1 then EASY_WORDS else if round = 2 then MEDIUM_WORDS else HARD_WORDS)"
  define ac where "ac = filter (\<lambda>w. category w = ACTION) av"
  define th where "th = filter (\<lambda>w. category w = THING) av"
  define pl where "pl = filter (\<lambda>w. category w = PLACE) av"
  from sel obtain s1 r1 s2 r2 s3 r3 res where
    p1: "pickInto ac ([], rnd) = Some (s1, r1)" and
    p2: "pickInto th (s1, r1) = Some (s2, r2)" and
    p3: "pickInto pl (s2, r2) = Some (s3, r3)" and
    fl: "fillFromPool s3 av r3 = Some res" and
    tk: "selected = take 3 res"
    unfolding selectWordOptions_def Let_def av_def[symmetric] ac_def[symmetric]
      th_def[symmetric] pl_def[symmetric]
    by (auto split: option.splits)
  from pool have dav: "distinct (map word av)"
    unfolding av_def by (rule distinct_map_filter)
  then have inj: "inj_on word (set av)"
    by (simp add: distinct_map)
  have diff: "word x \<noteq> word y"
    if "x \<in> set av" "y \<in> set av" "category x \<noteq> category y" for x y
    using inj that by (auto dest: inj_onD)
  note a = pickInto_Some[OF p1] and b = pickInto_Some[OF p2] and c = pickInto_Some[OF p3]
  have s1: "\<forall>x\<in>set s1. x \<in> set av \<and> category x = ACTION" "distinct (map word s1)"
    using a by (auto simp: ac_def)
  have s2: "\<forall>x\<in>set s2. x \<in> set av \<and> category x \<noteq> PLACE" "distinct (map word s2)"
  proof -
    from b consider "s2 = s1" | x where "x \<in> set th" "s2 = s1 @ [x]" by auto
    then show "\<forall>x\<in>set s2. x \<in> set av \<and> category x \<noteq> PLACE"
      using s1(1) by cases (auto simp: th_def)
    from b consider "s2 = s1" | x where "x \<in> set th" "s2 = s1 @ [x]" by auto
    then show "distinct (map word s2)"
    proof cases
      case 1
      with s1(2) show ?thesis by simp
    next
      case 2
      then have x: "x \<in> set av" "category x = THING" by (simp_all add: th_def)
      have "\<forall>y\<in>set s1. word y \<noteq> word x"
        using diff[of _ x] s1(1) x by auto
      with s1(2) 2(2) show ?thesis by auto
    qed
  qed
  have s3: "distinct (map word s3)"
  proof -
    from c consider "s3 = s2" | x where "x \<in> set pl" "s3 = s2 @ [x]" by auto
    then show ?thesis
    proof cases
      case 1
      with s2(2) show ?thesis by simp
    next
      case 2
      then have x: "x \<in> set av" "category x = PLACE" by (simp_all add: pl_def)
      have "\<forall>y\<in>set s2. word y \<noteq> word x"
        using diff[of _ x] s2(1) x by auto
      with s2(2) 2(2) show ?thesis by auto
    qed
  qed
  from fillFromPool_distinct[OF fl s3] have "distinct (map word res)" .
  then show ?thesis
    unfolding tk by (simp add: take_map[symmetric] del: take_map)
qed

lemma distinct_easy_medium:
  "distinct (map word EASY_WORDS)" "distinct (map word MEDIUM_WORDS)"
  by (simp_all add: EASY_WORDS_def MEDIUM_WORDS_def wordsOf_def)

lemma generateWordOptions_distinct_rounds_1_2:
  assumes "generateWordOptions round excludeWords rnd out" and "round = 1 \<or> round = 2"
  shows "distinct (map word out)"
proof -
  from assms(1) obtain selected where s: "selectWordOptions round excludeWords rnd = Some selected"
    and m: "mset out = mset selected"
    by (auto simp: generateWordOptions_def split: option.splits)
  from assms(2) have "distinct (map word (if round = 1 then EASY_WORDS
                     else if round = 2 then MEDIUM_WORDS else HARD_WORDS))"
    by (auto simp: distinct_easy_medium)
  from selectWordOptions_distinct[OF s this] have "distinct (map word selected)" .
  moreover from m have "mset (map word out) = mset (map word selected)"
    by simp
  then have "distinct (map word out) \<longleftrightarrow> distinct (map word selected)"
    by (rule mset_eq_imp_distinct_iff)
  ultimately show ?thesis by simp
qed

end
